theory Spec2Isabelle
  imports Complex_Main "HOL-Library.Multiset"
begin

section \<open>NetworkTool: Python values, the outside world, observable effects\<close>

text \<open>
  The program is \<^verbatim>\<open>src/NetworkTool/networktool.py\<close>. Its methods talk to the operating
  system (external processes, sockets, the name resolver, psutil, the clock). Everything the
  outside world answers is a field of the record \<open>world\<close>, so that each method becomes a
  function of the world and its arguments. Every method returns an \<open>outcome\<close>:
  the value returned or the exception that escapes (\<open>ret\<close>), the strings written to
  standard output by \<^verbatim>\<open>print\<close> and by the prompts of \<^verbatim>\<open>input\<close>, in order
  (\<open>printed\<close>; standard output takes every string), and the external calls made in
  order (\<open>calls\<close>).

  A Python \<^verbatim>\<open>str\<close> is a sequence of Unicode code points: the type \<open>str\<close> is a list of
  code points, each an integer as \<^verbatim>\<open>ord\<close> gives it; \<open>py\<close> turns an ASCII literal into
  such a list and \<open>cp\<close> gives the code point of an ASCII character. The character classes
  of the program (white space, line ends, decimal digits) are those of Python on Unicode text.
  Python integers are \<open>int\<close>. Time-outs and durations are Python floats; they are only
  forwarded to the outside world, never computed with, and are modelled as \<open>real\<close>.
\<close>

type_synonym str = "int list"

abbreviation py :: "string \<Rightarrow> str" where
  "py s \<equiv> map of_char s"

abbreviation cp :: "char \<Rightarrow> int" where
  "cp c \<equiv> of_char c"

datatype py_error = ValueError | OverflowError | AttributeError | EOFError | OSError

text \<open>
  What \<^verbatim>\<open>subprocess.run(cmd, ..., timeout=timeout, check=True)\<close> can do: the process exits
  with a status (a non-zero status raises CalledProcessError because of \<^verbatim>\<open>check=True\<close>),
  the time-out expires, the executable is not found, or another exception is raised
  (for example PermissionError, an OSError that is not FileNotFoundError, or ValueError
  for an argument with an embedded null byte).
\<close>

datatype proc_result = Exited int | TimeoutExpired | FileNotFoundError | Raised py_error

datatype call =
    Run_Process "str list" real   \<comment> \<open>\<^verbatim>\<open>subprocess.run(cmd, timeout=t, check=True)\<close>\<close>
  | Create_Connection str int real   \<comment> \<open>\<^verbatim>\<open>socket.create_connection((host, port), timeout=t)\<close>\<close>
  | Resolve str   \<comment> \<open>\<^verbatim>\<open>socket.gethostbyname(host)\<close>\<close>
  | Submit str int real   \<comment> \<open>\<^verbatim>\<open>executor.submit(self._scan_single_port, ip, port, timeout)\<close>\<close>
  | Net_Io_Counters   \<comment> \<open>\<^verbatim>\<open>psutil.net_io_counters()\<close>\<close>
  | Sleep real   \<comment> \<open>\<^verbatim>\<open>time.sleep(duration)\<close>\<close>
  | Which_Arp   \<comment> \<open>\<^verbatim>\<open>shutil.which("arp")\<close>\<close>
  | Run_Arp str   \<comment> \<open>\<^verbatim>\<open>subprocess.run([arp_cmd, "-a"], capture_output=True, ...)\<close>\<close>

record 'a outcome =
  ret :: "py_error + 'a"
  printed :: "str list"
  calls :: "call list"

text \<open>The two fields of psutil's counter tuple that the program reads.\<close>

record snetio =
  bytes_sent :: int
  bytes_recv :: int

record world =
  win32 :: bool   \<comment> \<open>\<^verbatim>\<open>sys.platform == "win32"\<close>\<close>
  platform_system :: str   \<comment> \<open>\<^verbatim>\<open>platform.system()\<close>\<close>
  subprocess_run :: "str list \<Rightarrow> real \<Rightarrow> proc_result"
  create_connection :: "str \<Rightarrow> int \<Rightarrow> real \<Rightarrow> bool"
    \<comment> \<open>True: connected; False: an Exception was raised\<close>
  gethostbyname :: "str \<Rightarrow> str + str"
    \<comment> \<open>\<open>Inr ip\<close>, or \<open>Inl e\<close> with the text of the exception raised\<close>
  connect_ex :: "str \<Rightarrow> int \<Rightarrow> real \<Rightarrow> py_error + int"
    \<comment> \<open>the body of the \<^verbatim>\<open>try\<close> of \<^verbatim>\<open>_scan_single_port\<close>: the code returned by
        \<^verbatim>\<open>sock.connect_ex\<close>, or the exception raised by creating the socket, setting its
        time-out or connecting\<close>
  has_psutil :: bool   \<comment> \<open>\<^verbatim>\<open>_HAS_PSUTIL\<close>\<close>
  net_io_counters :: "nat \<Rightarrow> snetio option"
    \<comment> \<open>the reading of the n-th call; psutil documents None for a machine without interfaces\<close>
  time_sleep :: "real \<Rightarrow> py_error option"
    \<comment> \<open>None: the sleep returns; \<^verbatim>\<open>time.sleep\<close> raises ValueError for a negative length\<close>
  which_arp :: "str option"
  arp_run :: "str \<Rightarrow> str + str"
    \<comment> \<open>\<open>Inr stdout\<close>, or \<open>Inl e\<close> with the text of the exception raised\<close>
  py_int :: "str \<Rightarrow> int option"
    \<comment> \<open>Python's \<^verbatim>\<open>int(s)\<close>; None: ValueError\<close>
  unicode_decimal :: "int \<Rightarrow> bool"
    \<comment> \<open>the decimal digits beyond ASCII (category Nd) of the interpreter's Unicode tables,
        which the pattern \<^verbatim>\<open>\d\<close> matches besides \<^verbatim>\<open>0-9\<close>\<close>

section \<open>Traffic sampler\<close>

text \<open>
  \<^verbatim>\<open>
  def get_network_traffic(self, duration: float = 1.0) -> tuple[int, int]:
      if not _HAS_PSUTIL:
          print("psutil not installed - cannot measure network traffic.")
          print("Install it with: pip install psutil")
          return 0, 0
      before = psutil.net_io_counters()
      time.sleep(duration)
      after = psutil.net_io_counters()
      sent = after.bytes_sent - before.bytes_sent
      recv = after.bytes_recv - before.bytes_recv
      return sent, recv
  \<close>
  (the dash of the first message is U+2014 in the source). Reading a field of None raises
  AttributeError.
\<close>

definition psutil_missing_advice :: "str list" where
  "psutil_missing_advice =
     [py ''psutil not installed '' @ [0x2014] @ py '' cannot measure network traffic.'',
      py ''Install it with: pip install psutil'']"

definition get_network_traffic :: "world \<Rightarrow> real \<Rightarrow> (int \<times> int) outcome" where
  "get_network_traffic w duration =
     (if \<not> has_psutil w then
        \<lparr>ret = Inr (0, 0), printed = psutil_missing_advice, calls = []\<rparr>
      else
        (case time_sleep w duration of
           Some err \<Rightarrow>
             \<lparr>ret = Inl err, printed = [], calls = [Net_Io_Counters, Sleep duration]\<rparr>
         | None \<Rightarrow>
             (case (net_io_counters w 1, net_io_counters w 0) of
                (Some after, Some before) \<Rightarrow>
                  \<lparr>ret = Inr (bytes_sent after - bytes_sent before,
                              bytes_recv after - bytes_recv before),
                   printed = [], calls = [Net_Io_Counters, Sleep duration, Net_Io_Counters]\<rparr>
              | _ \<Rightarrow>
                  \<lparr>ret = Inl AttributeError,
                   printed = [], calls = [Net_Io_Counters, Sleep duration, Net_Io_Counters]\<rparr>)))"


section \<open>Text helpers\<close>

text \<open>\<^verbatim>\<open>str(n)\<close> of an integer: decimal digits, a leading minus sign for a negative number.\<close>

function str_nat :: "nat \<Rightarrow> str" where
  "str_nat n = (if n < 10 then [cp CHR ''0'' + int n]
                else str_nat (n div 10) @ [cp CHR ''0'' + int (n mod 10)])"
  by pat_completeness auto
termination
  by (relation "measure (\<lambda>n. n)") auto

declare str_nat.simps [simp del]

definition str_int :: "int \<Rightarrow> str" where
  "str_int i = (if i < 0 then cp CHR ''-'' # str_nat (nat (- i)) else str_nat (nat i))"

text \<open>\<^verbatim>\<open>str(ports)\<close> of a list of integers: \<^verbatim>\<open>[7, 9]\<close>.\<close>

fun join_comma :: "str list \<Rightarrow> str" where
  "join_comma [] = []"
| "join_comma [x] = x"
| "join_comma (x # y # ys) = x @ py '', '' @ join_comma (y # ys)"

definition str_int_list :: "int list \<Rightarrow> str" where
  "str_int_list ps = py ''['' @ join_comma (map str_int ps) @ py '']''"

text \<open>
  White space as \<^verbatim>\<open>str.strip()\<close>, \<^verbatim>\<open>str.isspace()\<close> and the pattern \<^verbatim>\<open>\s\<close> see it:
  the ASCII characters 9 to 13, 28 to 31 and the blank, and the Unicode white space U+0085,
  U+00A0, U+1680, U+2000 to U+200A, U+2028, U+2029, U+202F, U+205F and U+3000.
\<close>

definition is_space :: "int \<Rightarrow> bool" where
  "is_space c \<longleftrightarrow>
     c \<in> set [0x09, 0x0A, 0x0B, 0x0C, 0x0D, 0x1C, 0x1D, 0x1E, 0x1F, 0x20,
               0x85, 0xA0, 0x1680, 0x2028, 0x2029, 0x202F, 0x205F, 0x3000] \<or>
     (0x2000 \<le> c \<and> c \<le> 0x200A)"

definition strip :: "str \<Rightarrow> str" where
  "strip s = rev (dropWhile is_space (rev (dropWhile is_space s)))"

text \<open>
  Letters are folded as \<^verbatim>\<open>str.lower()\<close> and \<^verbatim>\<open>str.upper()\<close> fold ASCII letters; a
  character beyond ASCII is left alone. The program folds two strings only. It compares
  \<^verbatim>\<open>platform.system().lower()\<close> with \<^verbatim>\<open>"windows"\<close>: \<^verbatim>\<open>str.lower()\<close> maps no
  character beyond ASCII to a letter of that word (only U+212A, to \<^verbatim>\<open>k\<close>, and U+0130, to
  \<^verbatim>\<open>i\<close> followed by U+0307, lead into ASCII at all), so the comparison has the same
  result. And it applies \<^verbatim>\<open>upper()\<close> to the address group of a pattern match, which
  consists of ASCII hexadecimal digits, colons and hyphens.
\<close>

definition lower_char :: "int \<Rightarrow> int" where
  "lower_char c = (if cp CHR ''A'' \<le> c \<and> c \<le> cp CHR ''Z'' then c + 32 else c)"

definition upper_char :: "int \<Rightarrow> int" where
  "upper_char c = (if cp CHR ''a'' \<le> c \<and> c \<le> cp CHR ''z'' then c - 32 else c)"

definition lower :: "str \<Rightarrow> str" where
  "lower s = map lower_char s"

definition upper :: "str \<Rightarrow> str" where
  "upper s = map upper_char s"

text \<open>\<^verbatim>\<open>f"{s:<18}"\<close>: \<open>s\<close> padded with blanks on the right to the width.\<close>

definition ljust :: "nat \<Rightarrow> str \<Rightarrow> str" where
  "ljust n s = s @ replicate (n - length s) (cp CHR '' '')"

text \<open>
  \<^verbatim>\<open>self.colors\<close> is \<^verbatim>\<open>Colors()\<close> unless \<^verbatim>\<open>sys.platform == "win32"\<close>, where it is
  \<^verbatim>\<open>NoColors()\<close>, every attribute of which is the empty string.
\<close>

definition GREEN :: "world \<Rightarrow> str" where
  "GREEN w = (if win32 w then [] else 0x1B # (py ''[92m''))"

definition ENDC :: "world \<Rightarrow> str" where
  "ENDC w = (if win32 w then [] else 0x1B # (py ''[0m''))"

section \<open>Connectivity prober\<close>

text \<open>
  \<^verbatim>\<open>
  def ping_host(self, host: str, timeout: float = 3.0, count: int = 1) -> bool:
      system = platform.system().lower()
      if system == "windows":
          cmd = ["ping", "-n", str(count), host]
      else:
          cmd = ["ping", "-c", str(count), host]
      try:
          subprocess.run(cmd, stdout=subprocess.DEVNULL, stderr=subprocess.DEVNULL,
                         timeout=timeout, check=True)
          return True
      except subprocess.CalledProcessError:
          return False
      except subprocess.TimeoutExpired:
          return False
      except FileNotFoundError:
          try:
              sock = socket.create_connection((host, 80), timeout=1)
              sock.close()
              return True
          except Exception:
              return False
  \<close>
  An exception of \<^verbatim>\<open>subprocess.run\<close> other than the three caught leaves the method.
  The argument \<^verbatim>\<open>count\<close> is \<open>cnt\<close> here.
\<close>

definition ping_cmd :: "world \<Rightarrow> str \<Rightarrow> int \<Rightarrow> str list" where
  "ping_cmd w host cnt =
     (if lower (platform_system w) = py ''windows''
      then [py ''ping'', py ''-n'', str_int cnt, host]
      else [py ''ping'', py ''-c'', str_int cnt, host])"

definition ping_host :: "world \<Rightarrow> str \<Rightarrow> real \<Rightarrow> int \<Rightarrow> bool outcome" where
  "ping_host w host timeout cnt =
     (let cmd = ping_cmd w host cnt in
      case subprocess_run w cmd timeout of
        Exited status \<Rightarrow>
          \<lparr>ret = Inr (status = 0), printed = [], calls = [Run_Process cmd timeout]\<rparr>
      | TimeoutExpired \<Rightarrow>
          \<lparr>ret = Inr False, printed = [], calls = [Run_Process cmd timeout]\<rparr>
      | FileNotFoundError \<Rightarrow>
          \<lparr>ret = Inr (create_connection w host 80 1), printed = [],
           calls = [Run_Process cmd timeout, Create_Connection host 80 1]\<rparr>
      | Raised err \<Rightarrow>
          \<lparr>ret = Inl err, printed = [], calls = [Run_Process cmd timeout]\<rparr>)"

section \<open>Port scan engine\<close>

text \<open>
  \<^verbatim>\<open>
  def _scan_single_port(self, ip: str, port: int, timeout: float) -> int | None:
      try:
          with socket.socket(socket.AF_INET, socket.SOCK_STREAM) as sock:
              sock.settimeout(timeout)
              if sock.connect_ex((ip, port)) == 0:
                  return port
      except Exception:
          pass
      return None
  \<close>
\<close>

definition scan_single_port :: "world \<Rightarrow> str \<Rightarrow> int \<Rightarrow> real \<Rightarrow> int option" where
  "scan_single_port w addr port timeout =
     (case connect_ex w addr port timeout of
        Inr code \<Rightarrow> if code = 0 then Some port else None
      | Inl err \<Rightarrow> None)"

text \<open>
  \<^verbatim>\<open>
  def scan_ports(self, host, start_port, end_port, timeout=0.5, concurrency=100) -> list[int]:
      open_ports: list[int] = []
      try:
          ip = socket.gethostbyname(host)
      except Exception as e:
          print(f"Could not resolve host '{host}': {e}")
          return open_ports
      print(f"Scanning {host} ({ip}) ports {start_port}-{end_port} with {concurrency} workers...")
      with ThreadPoolExecutor(max_workers=concurrency) as executor:
          futures = {executor.submit(self._scan_single_port, ip, port, timeout)
                     for port in range(start_port, end_port + 1)}
          try:
              for future in as_completed(futures):
                  result = future.result()
                  if result is not None:
                      open_ports.append(result)
                      print(f"{self.colors.GREEN}Port {result} is open.{self.colors.ENDC}")
          except KeyboardInterrupt:
              print("\nScan interrupted by user.")
              for f in futures:
                  f.cancel()
              executor.shutdown(wait=False, cancel_futures=True)
      return sorted(open_ports)
  \<close>
  Two things of a run are not arguments of the method and are arguments of the model:
  \<^item> \<open>order\<close>, the ports in the order in which \<^verbatim>\<open>as_completed\<close> yields their futures.
    One future is submitted for each port of \<^verbatim>\<open>range(start_port, end_port + 1)\<close>, so a possible
    order is an arrangement of \<open>[start_port..end_port]\<close>: see \<open>completion_order\<close>.
  \<^item> \<open>interrupt\<close>: \<open>None\<close> when the loop runs to its end, \<open>Some k\<close> when KeyboardInterrupt
    arrives in the loop after \<open>k\<close> futures have been handled (with \<open>k\<close> at least the number of
    futures the loop has ended before).

  \<^verbatim>\<open>ThreadPoolExecutor(max_workers=n)\<close> raises ValueError when \<open>n \<le> 0\<close>, before any task is
  submitted. The loop of the source is \<open>collect\<close>; its state is the list \<^verbatim>\<open>open_ports\<close> and the
  lines printed.
\<close>

definition completion_order :: "int \<Rightarrow> int \<Rightarrow> int list \<Rightarrow> bool" where
  "completion_order start_port end_port order \<longleftrightarrow> mset order = mset [start_port..end_port]"

definition port_open_line :: "world \<Rightarrow> int \<Rightarrow> str" where
  "port_open_line w result = GREEN w @ py ''Port '' @ str_int result @ py '' is open.'' @ ENDC w"

fun collect :: "world \<Rightarrow> str \<Rightarrow> real \<Rightarrow> int list \<Rightarrow> int list \<times> str list \<Rightarrow> int list \<times> str list" where
  "collect w addr timeout [] (open_ports, out) = (open_ports, out)"
| "collect w addr timeout (port # rest) (open_ports, out) =
     (case scan_single_port w addr port timeout of
        None \<Rightarrow> collect w addr timeout rest (open_ports, out)
      | Some result \<Rightarrow>
          collect w addr timeout rest (open_ports @ [result], out @ [port_open_line w result]))"

definition could_not_resolve :: "str \<Rightarrow> str \<Rightarrow> str" where
  "could_not_resolve host e = py ''Could not resolve host '' @ [0x27] @ host @ [0x27] @ py '': '' @ e"

definition scanning_banner :: "str \<Rightarrow> str \<Rightarrow> int \<Rightarrow> int \<Rightarrow> int \<Rightarrow> str" where
  "scanning_banner host addr start_port end_port concurrency =
     py ''Scanning '' @ host @ py '' ('' @ addr @ py '') ports '' @ str_int start_port @ py ''-'' @
     str_int end_port @ py '' with '' @ str_int concurrency @ py '' workers...''"

definition scan_ports ::
  "world \<Rightarrow> str \<Rightarrow> int \<Rightarrow> int \<Rightarrow> real \<Rightarrow> int \<Rightarrow> int list \<Rightarrow> nat option \<Rightarrow> int list outcome" where
  "scan_ports w host start_port end_port timeout concurrency order interrupt =
     (case gethostbyname w host of
        Inl e \<Rightarrow>
          \<lparr>ret = Inr [], printed = [could_not_resolve host e], calls = [Resolve host]\<rparr>
      | Inr addr \<Rightarrow>
          (let banner = scanning_banner host addr start_port end_port concurrency in
           if concurrency \<le> 0 then
             \<lparr>ret = Inl ValueError, printed = [banner], calls = [Resolve host]\<rparr>
           else
             (let handled = (case interrupt of None \<Rightarrow> order | Some k \<Rightarrow> take k order);
                  interrupted = (case interrupt of None \<Rightarrow> False | Some k \<Rightarrow> k < length order);
                  (open_ports, out) = collect w addr timeout handled ([], [])
              in \<lparr>ret = Inr (sort open_ports),
                  printed = [banner] @ out @
                    (if interrupted then [0x0A # (py ''Scan interrupted by user.'')] else []),
                  calls = Resolve host # map (\<lambda>port. Submit addr port timeout) [start_port..end_port]\<rparr>)))"

text \<open>
  The menu handler. \<^verbatim>\<open>input(prompt)\<close> writes the prompt and reads the next line of standard
  input (\<open>stdin\<close>, the lines still to be read); at the end of input it raises EOFError, which
  the handler does not catch.
  \<^verbatim>\<open>
  def _handle_scan(self):
      host = input("Host to scan: ").strip()
      if not host:
          print("No host entered.")
          return
      try:
          start = int(input("Start port (e.g. 1): ").strip())
          end = int(input("End port (e.g. 1024): ").strip())
          if start < 0 or end < start:
              print("Invalid port range.")
              return
      except ValueError:
          print("Port numbers must be integers.")
          return
      ports = self.scan_ports(host, start, end)
      if ports:
          print(f"{self.colors.GREEN}Open ports on {host}: {ports}{self.colors.ENDC}")
      else:
          print(f"No open ports found on {host} in range {start}-{end}.")
  \<close>
\<close>

definition scan_report :: "world \<Rightarrow> str \<Rightarrow> int \<Rightarrow> int \<Rightarrow> int list \<Rightarrow> str" where
  "scan_report w host start end ports =
     (if ports \<noteq> [] then
        GREEN w @ py ''Open ports on '' @ host @ py '': '' @ str_int_list ports @ ENDC w
      else
        py ''No open ports found on '' @ host @ py '' in range '' @ str_int start @ py ''-'' @
        str_int end @ py ''.'')"

definition handle_scan :: "world \<Rightarrow> str list \<Rightarrow> int list \<Rightarrow> nat option \<Rightarrow> unit outcome" where
  "handle_scan w stdin order interrupt =
     (case stdin of
        [] \<Rightarrow> \<lparr>ret = Inl EOFError, printed = [py ''Host to scan: ''], calls = []\<rparr>
      | line1 # stdin1 \<Rightarrow>
          (let host = strip line1 in
           if host = [] then
             \<lparr>ret = Inr (), printed = [py ''Host to scan: '', py ''No host entered.''], calls = []\<rparr>
           else
             (case stdin1 of
                [] \<Rightarrow>
                  \<lparr>ret = Inl EOFError,
                   printed = [py ''Host to scan: '', py ''Start port (e.g. 1): ''], calls = []\<rparr>
              | line2 # stdin2 \<Rightarrow>
                  (case py_int w (strip line2) of
                     None \<Rightarrow>
                       \<lparr>ret = Inr (),
                        printed = [py ''Host to scan: '', py ''Start port (e.g. 1): '',
                                   py ''Port numbers must be integers.''],
                        calls = []\<rparr>
                   | Some start \<Rightarrow>
                       (case stdin2 of
                          [] \<Rightarrow>
                            \<lparr>ret = Inl EOFError,
                             printed = [py ''Host to scan: '', py ''Start port (e.g. 1): '',
                                        py ''End port (e.g. 1024): ''],
                             calls = []\<rparr>
                        | line3 # stdin3 \<Rightarrow>
                            (case py_int w (strip line3) of
                               None \<Rightarrow>
                                 \<lparr>ret = Inr (),
                                  printed = [py ''Host to scan: '', py ''Start port (e.g. 1): '',
                                             py ''End port (e.g. 1024): '',
                                             py ''Port numbers must be integers.''],
                                  calls = []\<rparr>
                             | Some end \<Rightarrow>
                                 if start < 0 \<or> end < start then
                                   \<lparr>ret = Inr (),
                                    printed = [py ''Host to scan: '', py ''Start port (e.g. 1): '',
                                               py ''End port (e.g. 1024): '', py ''Invalid port range.''],
                                    calls = []\<rparr>
                                 else
                                   (let scan = scan_ports w host start end 0.5 100 order interrupt in
                                    case ret scan of
                                      Inl err \<Rightarrow>
                                        \<lparr>ret = Inl err,
                                         printed = [py ''Host to scan: '', py ''Start port (e.g. 1): '',
                                                    py ''End port (e.g. 1024): ''] @ printed scan,
                                         calls = calls scan\<rparr>
                                    | Inr ports \<Rightarrow>
                                        \<lparr>ret = Inr (),
                                         printed = [py ''Host to scan: '', py ''Start port (e.g. 1): '',
                                                    py ''End port (e.g. 1024): ''] @ printed scan @
                                                   [scan_report w host start end ports],
                                         calls = calls scan\<rparr>)))))))"

section \<open>Neighbor discovery\<close>

subsection \<open>The two patterns\<close>

text \<open>
  \<^verbatim>\<open>pattern.match(line)\<close> of Python's \<^verbatim>\<open>re\<close> matches at the start of the line by
  backtracking: a greedy repetition takes as many characters as it can and gives them back one
  at a time when the rest of the pattern fails. A pattern is modelled as a function from the
  input to the list of its ways of matching a prefix, in the order in which backtracking tries
  them, each with the text matched and the input left over; the match that Python reports is
  the first of the list.
\<close>

type_synonym rx = "str \<Rightarrow> (str \<times> str) list"

text \<open>
  \<open>rx_rep P lo hi\<close> is a character class repeated greedily: \<^verbatim>\<open>[..]{lo,hi}\<close>, with \<open>hi = None\<close>
  for no upper bound (\<^verbatim>\<open>*\<close> is \<open>0 None\<close>, \<^verbatim>\<open>+\<close> is \<open>1 None\<close>).
\<close>

definition rx_rep :: "(int \<Rightarrow> bool) \<Rightarrow> nat \<Rightarrow> nat option \<Rightarrow> rx" where
  "rx_rep P lo hi s =
     (let n = length (takeWhile P s);
          m = (case hi of None \<Rightarrow> n | Some h \<Rightarrow> min h n)
      in map (\<lambda>k. (take k s, drop k s)) (rev [lo..<Suc m]))"

definition rx_lit :: "str \<Rightarrow> rx" where
  "rx_lit lit s = (if take (length lit) s = lit then [(lit, drop (length lit) s)] else [])"

definition rx_then :: "rx \<Rightarrow> rx \<Rightarrow> rx" where
  "rx_then p q s = concat (map (\<lambda>(a, r). map (\<lambda>(b, r'). (a @ b, r')) (q r)) (p s))"

fun rx_times :: "nat \<Rightarrow> rx \<Rightarrow> rx" where
  "rx_times 0 p = (\<lambda>s. [([], s)])"
| "rx_times (Suc n) p = rx_then p (rx_times n p)"

text \<open>
  The character classes: \<^verbatim>\<open>.\<close> (anything but a newline), \<^verbatim>\<open>[\d\.]\<close> (in a pattern for
  \<^verbatim>\<open>str\<close>, \<^verbatim>\<open>\d\<close> is any Unicode decimal digit: \<^verbatim>\<open>0-9\<close> and the digits of the
  interpreter's tables), \<^verbatim>\<open>[0-9a-fA-F]\<close>, \<^verbatim>\<open>[:-]\<close> and \<^verbatim>\<open>-\<close>; \<^verbatim>\<open>\s\<close> is
  \<open>is_space\<close>.
\<close>

definition any_char :: "int \<Rightarrow> bool" where
  "any_char c \<longleftrightarrow> c \<noteq> 0x0A"

definition digit_or_dot :: "world \<Rightarrow> int \<Rightarrow> bool" where
  "digit_or_dot w c \<longleftrightarrow>
     (cp CHR ''0'' \<le> c \<and> c \<le> cp CHR ''9'') \<or> (128 \<le> c \<and> unicode_decimal w c) \<or>
     c = cp CHR ''.''"

definition hex_digit :: "int \<Rightarrow> bool" where
  "hex_digit c \<longleftrightarrow>
     (cp CHR ''0'' \<le> c \<and> c \<le> cp CHR ''9'') \<or> (cp CHR ''a'' \<le> c \<and> c \<le> cp CHR ''f'') \<or>
     (cp CHR ''A'' \<le> c \<and> c \<le> cp CHR ''F'')"

definition colon_or_hyphen :: "int \<Rightarrow> bool" where
  "colon_or_hyphen c \<longleftrightarrow> c = cp CHR '':'' \<or> c = cp CHR ''-''"

definition hyphen :: "int \<Rightarrow> bool" where
  "hyphen c \<longleftrightarrow> c = cp CHR ''-''"

text \<open>\<^verbatim>\<open>([0-9a-fA-F]{1,2}D){5}[0-9a-fA-F]{1,2}\<close> for a delimiter class \<open>D\<close>.\<close>

definition rx_mac :: "(int \<Rightarrow> bool) \<Rightarrow> rx" where
  "rx_mac delim =
     rx_then (rx_times 5 (rx_then (rx_rep hex_digit 1 (Some 2)) (rx_rep delim 1 (Some 1))))
             (rx_rep hex_digit 1 (Some 2))"

text \<open>
  \<^verbatim>\<open>
  linux_mac_pattern = re.compile(
    r".*\((?P<ip>[\d\.]+)\)\s+at\s+(?P<mac>([0-9a-fA-F]{1,2}[:-]){5}[0-9a-fA-F]{1,2}).*")
  windows_pattern = re.compile(
    r"\s*(?P<ip>[\d\.]+)\s+(?P<mac>([0-9a-fA-F]{1,2}-){5}[0-9a-fA-F]{1,2}).*")
  \<close>
  Each function returns the groups \<^verbatim>\<open>ip\<close> and \<^verbatim>\<open>mac\<close> of \<^verbatim>\<open>pattern.match(line)\<close>,
  or None when the line does not match.
\<close>

definition linux_mac_matches :: "world \<Rightarrow> str \<Rightarrow> (str \<times> str) list" where
  "linux_mac_matches w line =
     [(g_ip, g_mac).
        (t1, r1) \<leftarrow> rx_rep any_char 0 None line,
        (t2, r2) \<leftarrow> rx_lit (py ''('') r1,
        (g_ip, r3) \<leftarrow> rx_rep (digit_or_dot w) 1 None r2,
        (t4, r4) \<leftarrow> rx_lit (py '')'') r3,
        (t5, r5) \<leftarrow> rx_rep is_space 1 None r4,
        (t6, r6) \<leftarrow> rx_lit (py ''at'') r5,
        (t7, r7) \<leftarrow> rx_rep is_space 1 None r6,
        (g_mac, r8) \<leftarrow> rx_mac colon_or_hyphen r7,
        (t9, r9) \<leftarrow> rx_rep any_char 0 None r8]"

definition windows_matches :: "world \<Rightarrow> str \<Rightarrow> (str \<times> str) list" where
  "windows_matches w line =
     [(g_ip, g_mac).
        (t1, r1) \<leftarrow> rx_rep is_space 0 None line,
        (g_ip, r2) \<leftarrow> rx_rep (digit_or_dot w) 1 None r1,
        (t3, r3) \<leftarrow> rx_rep is_space 1 None r2,
        (g_mac, r4) \<leftarrow> rx_mac hyphen r3,
        (t5, r5) \<leftarrow> rx_rep any_char 0 None r4]"

definition first_match :: "'a list \<Rightarrow> 'a option" where
  "first_match ms = (case ms of [] \<Rightarrow> None | m # rest \<Rightarrow> Some m)"

definition linux_mac_pattern :: "world \<Rightarrow> str \<Rightarrow> (str \<times> str) option" where
  "linux_mac_pattern w line = first_match (linux_mac_matches w line)"

definition windows_pattern :: "world \<Rightarrow> str \<Rightarrow> (str \<times> str) option" where
  "windows_pattern w line = first_match (windows_matches w line)"

subsection \<open>Lines, records, the table\<close>

text \<open>
  \<^verbatim>\<open>str.splitlines()\<close>: a line ends at \<^verbatim>\<open>\n\<close>, \<^verbatim>\<open>\r\<close>, \<^verbatim>\<open>\r\n\<close>, \<^verbatim>\<open>\v\<close>,
  \<^verbatim>\<open>\f\<close>, one of the characters 28 to 30, U+0085, U+2028 or U+2029; the line ends are
  dropped, and there is no empty last line.
\<close>

definition line_break :: "int \<Rightarrow> bool" where
  "line_break c \<longleftrightarrow>
     c \<in> set [0x0A, 0x0D, 0x0B, 0x0C, 0x1C, 0x1D, 0x1E, 0x85, 0x2028, 0x2029]"

definition after_break :: "str \<Rightarrow> str" where
  "after_break s =
     (case s of
        [] \<Rightarrow> []
      | c # rest \<Rightarrow>
          (if c = 0x0D \<and> take 1 rest = [0x0A] then drop 1 rest else rest))"

function splitlines :: "str \<Rightarrow> str list" where
  "splitlines s =
     (if s = [] then []
      else takeWhile (\<lambda>c. \<not> line_break c) s #
           splitlines (after_break (dropWhile (\<lambda>c. \<not> line_break c) s)))"
  by pat_completeness auto
termination
proof (relation "measure length")
  show "wf (measure length)" by simp
next
  fix s :: str
  assume "s \<noteq> []"
  then obtain c cs where s: "s = c # cs" by (cases s) auto
  have "length (after_break t) \<le> length t" for t
    by (cases t) (auto simp: after_break_def)
  moreover have "length (after_break (dropWhile (\<lambda>c. \<not> line_break c) s)) < length s"
  proof (cases "line_break c")
    case True
    then have "dropWhile (\<lambda>c. \<not> line_break c) s = c # cs" by (simp add: s)
    then show ?thesis by (auto simp: after_break_def s)
  next
    case False
    have "length (after_break (dropWhile (\<lambda>c. \<not> line_break c) cs)) \<le> length cs"
      by (rule order_trans [OF \<open>\<And>t. length (after_break t) \<le> length t\<close>]) (rule length_dropWhile_le)
    with False show ?thesis by (simp add: s)
  qed
  ultimately show "(after_break (dropWhile (\<lambda>c. \<not> line_break c) s), s) \<in> measure length"
    by simp
qed

declare splitlines.simps [simp del]

record device =
  ip :: str
  mac :: str

text \<open>
  \<^verbatim>\<open>
  for line in output.splitlines():
      match = linux_mac_pattern.match(line) or windows_pattern.match(line)
      if match:
          devices.append({"ip": match.group("ip"),
                          "mac": match.group("mac").replace("-", ":").upper()})
  \<close>
\<close>

definition normalize_mac :: "str \<Rightarrow> str" where
  "normalize_mac m = upper (map (\<lambda>c. if c = cp CHR ''-'' then cp CHR '':'' else c) m)"

definition match_line :: "world \<Rightarrow> str \<Rightarrow> (str \<times> str) option" where
  "match_line w line =
     (case linux_mac_pattern w line of Some m \<Rightarrow> Some m | None \<Rightarrow> windows_pattern w line)"

fun scan_lines :: "world \<Rightarrow> str list \<Rightarrow> device list \<Rightarrow> device list" where
  "scan_lines w [] devices = devices"
| "scan_lines w (line # rest) devices =
     (case match_line w line of
        None \<Rightarrow> scan_lines w rest devices
      | Some (g_ip, g_mac) \<Rightarrow>
          scan_lines w rest (devices @ [\<lparr>ip = g_ip, mac = normalize_mac g_mac\<rparr>]))"

definition arp_devices :: "world \<Rightarrow> str \<Rightarrow> device list" where
  "arp_devices w output = scan_lines w (splitlines output) []"

text \<open>
  \<^verbatim>\<open>
  def discover_devices(self) -> None:
      arp_cmd = shutil.which("arp")
      if not arp_cmd:
          print("ARP command not found. On some platforms, you may need elevated privileges or different tools.")
          return
      try:
          completed = subprocess.run([arp_cmd, "-a"], capture_output=True, text=True, errors="replace")
          output = completed.stdout
          devices = []
          ... (the loop above)
          if devices:
              print(f"{self.colors.GREEN}Discovered {len(devices)} devices:{self.colors.ENDC}")
              print(f"{'IP Address':<18} {'MAC Address':<18}")
              print("-" * 37)
              for device in devices:
                  print(f"{device['ip']:<18} {device['mac']:<18}")
          else:
              print("No devices discovered in the ARP cache.")
      except Exception as e:
          print(f"Error running arp: {e}")
  \<close>
\<close>

definition device_row :: "device \<Rightarrow> str" where
  "device_row d = ljust 18 (ip d) @ py '' '' @ ljust 18 (mac d)"

definition devices_table :: "world \<Rightarrow> device list \<Rightarrow> str list" where
  "devices_table w devices =
     (if devices \<noteq> [] then
        [GREEN w @ py ''Discovered '' @ str_int (int (length devices)) @ py '' devices:'' @ ENDC w,
         ljust 18 (py ''IP Address'') @ py '' '' @ ljust 18 (py ''MAC Address''),
         replicate 37 (cp CHR ''-'')] @ map device_row devices
      else [py ''No devices discovered in the ARP cache.''])"

definition discover_devices :: "world \<Rightarrow> unit outcome" where
  "discover_devices w =
     (case which_arp w of
        None \<Rightarrow>
          \<lparr>ret = Inr (),
           printed = [py ''ARP command not found. On some platforms, you may need elevated privileges or different tools.''],
           calls = [Which_Arp]\<rparr>
      | Some arp_cmd \<Rightarrow>
          (case arp_run w arp_cmd of
             Inl e \<Rightarrow>
               \<lparr>ret = Inr (), printed = [(py ''Error running arp: '') @ e],
                calls = [Which_Arp, Run_Arp arp_cmd]\<rparr>
           | Inr output \<Rightarrow>
               \<lparr>ret = Inr (), printed = devices_table w (arp_devices w output),
                calls = [Which_Arp, Run_Arp arp_cmd]\<rparr>))"

subsection \<open>The form of an address\<close>

text \<open>
  The groups of an address are the pieces between its colons (\<^verbatim>\<open>m.split(":")\<close>). An address
  is in the canonical form of the specification, uppercase hexadecimal pairs joined by
  colons, when it has six groups of exactly two characters among \<^verbatim>\<open>0-9A-F\<close>;
  \<open>hex_groups lo hi\<close> allows between \<open>lo\<close> and \<open>hi\<close> characters in a group.
\<close>

fun split_colon :: "str \<Rightarrow> str list" where
  "split_colon [] = [[]]"
| "split_colon (c # cs) =
     (if c = cp CHR '':'' then [] # split_colon cs
      else (c # hd (split_colon cs)) # tl (split_colon cs))"

definition upper_hex_digit :: "int \<Rightarrow> bool" where
  "upper_hex_digit c \<longleftrightarrow>
     (cp CHR ''0'' \<le> c \<and> c \<le> cp CHR ''9'') \<or> (cp CHR ''A'' \<le> c \<and> c \<le> cp CHR ''F'')"

definition hex_groups :: "nat \<Rightarrow> nat \<Rightarrow> str \<Rightarrow> bool" where
  "hex_groups lo hi m \<longleftrightarrow>
     length (split_colon m) = 6 \<and>
     list_all (\<lambda>g. lo \<le> length g \<and> length g \<le> hi \<and> list_all upper_hex_digit g) (split_colon m)"

definition canonical_mac :: "str \<Rightarrow> bool" where
  "canonical_mac m \<longleftrightarrow> hex_groups 2 2 m"

section \<open>Concrete worlds\<close>

text \<open>
  A laboratory world for evaluating the model: a Linux machine without psutil; the name
  \<^verbatim>\<open>scanme.test\<close> resolves and no other name does; on the scanned host the ports 7 and 9
  accept connections, every other port of the TCP range refuses, and a port number outside
  the range makes \<^verbatim>\<open>connect_ex\<close> raise OverflowError. The \<^verbatim>\<open>ping\<close> command exits with
  status 0, except that it runs into the time-out for \<^verbatim>\<open>slow.test\<close> and exits with
  status 1 for \<^verbatim>\<open>down.test\<close>; an argument with a null byte makes \<^verbatim>\<open>subprocess.run\<close>
  raise ValueError. The \<^verbatim>\<open>arp\<close> command prints five lines: a line in the format of macOS
  (ended by a newline), a line that is no table row (ended by a carriage return and a
  newline), a line in the format of Windows (newline), the first line again (ended by
  U+0085), and a line in the format of Windows whose address 10.0.0.9 is written in
  Arabic-Indic digits and followed by a no-break space. The interpreter has the decimal
  digits of Unicode 14, each block of ten given by its first code point.
\<close>

definition decimal_blocks :: "int list" where
  "decimal_blocks =
     [0x660, 0x6F0, 0x7C0, 0x966, 0x9E6, 0xA66, 0xAE6, 0xB66, 0xBE6, 0xC66, 0xCE6,
      0xD66, 0xDE6, 0xE50, 0xED0, 0xF20, 0x1040, 0x1090, 0x17E0, 0x1810, 0x1946,
      0x19D0, 0x1A80, 0x1A90, 0x1B50, 0x1BB0, 0x1C40, 0x1C50, 0xA620, 0xA8D0, 0xA900,
      0xA9D0, 0xA9F0, 0xAA50, 0xABF0, 0xFF10, 0x104A0, 0x10D30, 0x11066, 0x110F0,
      0x11136, 0x111D0, 0x112F0, 0x11450, 0x114D0, 0x11650, 0x116C0, 0x11730, 0x118E0,
      0x11950, 0x11C50, 0x11D50, 0x11DA0, 0x16A60, 0x16AC0, 0x16B50, 0x1D7CE, 0x1D7D8,
      0x1D7E2, 0x1D7EC, 0x1D7F6, 0x1E140, 0x1E2F0, 0x1E950, 0x1FBF0]"

definition lab_world :: world where
  "lab_world =
     \<lparr>win32 = False,
      platform_system = py ''Linux'',
      subprocess_run = (\<lambda>cmd t. if 0 \<in> set (last cmd) then Raised ValueError
                               else if last cmd = py ''slow.test'' then TimeoutExpired
                               else if last cmd = py ''down.test'' then Exited 1
                               else Exited 0),
      create_connection = (\<lambda>h p t. False),
      gethostbyname = (\<lambda>h. if h = py ''scanme.test'' then Inr (py ''10.0.0.1'')
                             else Inl (py ''[Errno -2] Name or service not known'')),
      connect_ex = (\<lambda>a p t. if p < 0 \<or> 65535 < p then Inl OverflowError
                              else Inr (if p = 7 \<or> p = 9 then 0 else 111)),
      has_psutil = False,
      net_io_counters = (\<lambda>n. None),
      time_sleep = (\<lambda>d. if d < 0 then Some ValueError else None),
      which_arp = Some (py ''/usr/sbin/arp''),
      arp_run = (\<lambda>cmd. Inr (py ''? (192.168.1.1) at 0:1a:2b:3c:4d:5e on en0 ifscope [ethernet]'' @ [0x0A] @
                             py ''Interface: 192.168.1.5 --- 0x3'' @ [0x0D, 0x0A] @
                             py ''  192.168.1.7           1a-2b-3c-4d-5e-6f     dynamic'' @ [0x0A] @
                             py ''? (192.168.1.1) at 0:1a:2b:3c:4d:5e on en0 ifscope [ethernet]'' @ [0x85] @
                             [0x661, 0x660, 0x2E, 0x660, 0x2E, 0x660, 0x2E, 0x669, 0xA0] @
                             py ''0A-0B-0C-0D-0E-0f'' @ [0x0A])),
      py_int = map_of [(py ''1'', 1), (py ''3'', 3), (py ''5'', 5), (py ''10'', 10)],
      unicode_decimal = (\<lambda>c. list_ex (\<lambda>b. b \<le> c \<and> c < b + 10) decimal_blocks)\<rparr>"

text \<open>The same machine without a \<^verbatim>\<open>ping\<close> executable.\<close>

definition no_ping_world :: world where
  "no_ping_world = lab_world\<lparr>subprocess_run := (\<lambda>cmd t. FileNotFoundError)\<rparr>"

text \<open>The same machine with psutil, whose sent counter falls between two readings.\<close>

definition reset_world :: world where
  "reset_world =
     lab_world\<lparr>has_psutil := True,
       net_io_counters := (\<lambda>n. if n = 0 then Some \<lparr>bytes_sent = 100, bytes_recv = 50\<rparr>
                                  else Some \<lparr>bytes_sent = 40, bytes_recv = 70\<rparr>)\<rparr>"

section \<open>Properties of the traffic sampler\<close>

text \<open>
  Claim C2, as stated in the specification: the sampler returns non-negative byte deltas, and
  a second reading lower than the first gives a delta of zero. The code subtracts and does
  nothing else. In \<open>reset_world\<close> the sent counter reads 100 and then 40, and the sampler
  returns \<open>- 60\<close> for that direction.
\<close>

theorem get_network_traffic_negative_delta:
  "net_io_counters reset_world 0 = Some \<lparr>bytes_sent = 100, bytes_recv = 50\<rparr> \<and>
   net_io_counters reset_world 1 = Some \<lparr>bytes_sent = 40, bytes_recv = 70\<rparr> \<and>
   ret (get_network_traffic reset_world 1) = Inr (- 60, 20)"
  by (simp add: get_network_traffic_def reset_world_def lab_world_def)

text \<open>
  Claim C2, amended: when psutil is present, the sleep returns and both readings exist, the
  sampler returns for each direction the second reading minus the first; that delta is
  negative exactly when the counter of that direction has fallen (nothing is clamped to
  zero), and non-negative otherwise.
\<close>

theorem get_network_traffic_delta:
  assumes "has_psutil w" and "time_sleep w d = None"
    and "net_io_counters w 0 = Some before" and "net_io_counters w 1 = Some after"
  shows "ret (get_network_traffic w d) =
           Inr (bytes_sent after - bytes_sent before, bytes_recv after - bytes_recv before) \<and>
         (bytes_sent after - bytes_sent before < 0 \<longleftrightarrow> bytes_sent after < bytes_sent before) \<and>
         (bytes_recv after - bytes_recv before < 0 \<longleftrightarrow> bytes_recv after < bytes_recv before)"
  using assms by (simp add: get_network_traffic_def)

theorem get_network_traffic_delta_witness:
  "has_psutil reset_world \<and> time_sleep reset_world 1 = None \<and>
   net_io_counters reset_world 0 = Some \<lparr>bytes_sent = 100, bytes_recv = 50\<rparr> \<and>
   net_io_counters reset_world 1 = Some \<lparr>bytes_sent = 40, bytes_recv = 70\<rparr> \<and>
   ret (get_network_traffic reset_world 1) = Inr (40 - 100, 70 - 50)"
  using get_network_traffic_delta
    [of reset_world 1 "\<lparr>bytes_sent = 100, bytes_recv = 50\<rparr>" "\<lparr>bytes_sent = 40, bytes_recv = 70\<rparr>"]
  by (simp add: reset_world_def lab_world_def)



section \<open>Properties of the port scan engine\<close>

lemma scan_single_port_eq:
  "scan_single_port w addr port t = (if connect_ex w addr port t = Inr 0 then Some port else None)"
  by (auto simp: scan_single_port_def split: sum.splits)

text \<open>The loop adds the open ports among the futures it handles, in the order it handles them.\<close>

lemma collect_eq:
  "collect w addr t ps (acc, out) =
     (acc @ filter (\<lambda>p. connect_ex w addr p t = Inr 0) ps,
      out @ map (port_open_line w) (filter (\<lambda>p. connect_ex w addr p t = Inr 0) ps))"
  by (induction ps arbitrary: acc out) (simp_all add: scan_single_port_eq)

lemma completion_orderD:
  assumes "completion_order s e order"
  shows "distinct order" and "set order = {s..e}"
proof -
  from assms have m: "mset order = mset [s..e]" by (simp add: completion_order_def)
  from mset_eq_imp_distinct_iff [OF m] show "distinct order" by simp
  from mset_eq_setD [OF m] show "set order = {s..e}" by simp
qed

lemma scan_ports_resolved:
  assumes "gethostbyname w host = Inr addr" and "0 < c"
  shows "ret (scan_ports w host s e t c order intr) =
           Inr (sort (filter (\<lambda>p. connect_ex w addr p t = Inr 0)
                  (case intr of None \<Rightarrow> order | Some k \<Rightarrow> take k order)))"
    and "calls (scan_ports w host s e t c order intr) =
           Resolve host # map (\<lambda>p. Submit addr p t) [s..e]"
  using assms by (simp_all add: scan_ports_def collect_eq Let_def)

lemma sort_filter_perm:
  assumes "mset xs = mset ys"
  shows "sort (filter P xs) = sort (filter P ys)"
proof -
  have "mset (filter P xs) = mset (filter P ys)" using assms by (metis mset_filter)
  then show ?thesis by (metis properties_for_sort sorted_sort mset_sort)
qed

text \<open>
  Claim C1: for a host that resolves, \<open>scan_ports\<close> returns a list of ports that lies in
  \<open>{start_port..end_port}\<close>, has no duplicates and is sorted ascending. This holds for every
  order in which the probes complete and also when the operator interrupts the scan; the
  bound \<open>start_port \<le> end_port\<close> of the claim is not needed. The worker count is positive,
  as the specification requires of a scan request (\<^verbatim>\<open>ThreadPoolExecutor\<close> raises ValueError
  for a worker count of zero or less).
\<close>

theorem scan_ports_subset_distinct_sorted:
  assumes "gethostbyname w host = Inr addr"
    and "completion_order start_port end_port order"
    and "0 < concurrency"
  shows "\<exists>ports. ret (scan_ports w host start_port end_port timeout concurrency order interrupt) =
                  Inr ports \<and>
           set ports \<subseteq> {start_port..end_port} \<and> distinct ports \<and> sorted ports"
proof -
  let ?handled = "case interrupt of None \<Rightarrow> order | Some k \<Rightarrow> take k order"
  let ?ports = "sort (filter (\<lambda>p. connect_ex w addr p timeout = Inr 0) ?handled)"
  have d: "distinct ?handled" and s: "set ?handled \<subseteq> {start_port..end_port}"
    using completion_orderD [OF assms(2)] by (auto split: option.splits dest: in_set_takeD)
  have "ret (scan_ports w host start_port end_port timeout concurrency order interrupt) = Inr ?ports"
    by (rule scan_ports_resolved(1) [OF assms(1,3)])
  moreover have "set ?ports \<subseteq> {start_port..end_port}" using s by auto
  moreover have "distinct ?ports" using d by simp
  moreover have "sorted ?ports" by simp
  ultimately show ?thesis by blast
qed

theorem scan_ports_subset_distinct_sorted_witness:
  "gethostbyname lab_world (py ''scanme.test'') = Inr (py ''10.0.0.1'') \<and>
   completion_order 1 10 [3, 9, 1, 10, 2, 7, 5, 4, 8, 6] \<and> (0::int) < 100 \<and>
   (\<exists>ports. ret (scan_ports lab_world (py ''scanme.test'') 1 10 0.5 100
                    [3, 9, 1, 10, 2, 7, 5, 4, 8, 6] (Some 8)) = Inr ports \<and>
            set ports \<subseteq> {1..10} \<and> distinct ports \<and> sorted ports)"
proof -
  have h1: "gethostbyname lab_world (py ''scanme.test'') = Inr (py ''10.0.0.1'')"
    by (simp add: lab_world_def)
  have h2: "completion_order 1 10 [3, 9, 1, 10, 2, 7, 5, 4, 8, 6]"
    unfolding completion_order_def by code_simp
  have h3: "(0::int) < 100" by simp
  show ?thesis
    using h1 h2 h3 scan_ports_subset_distinct_sorted [OF h1 h2 h3, of "0.5" "Some 8"] by simp
qed

text \<open>
  Claim C3, as stated in the specification: for \<open>start_port > end_port\<close> the scan returns an
  empty result together with a validation error, and rejects the input before any work.
  \<open>scan_ports\<close> has no such check: called with the ports 5 and 3 it resolves the host, prints
  its banner and returns the empty list like any scan that found nothing, without an
  exception and without a message about the range.
\<close>

theorem scan_ports_reversed_range_no_error:
  "(3::int) < 5 \<and>
   scan_ports lab_world (py ''scanme.test'') 5 3 0.5 100 [] None =
     \<lparr>ret = Inr [],
      printed = [py ''Scanning scanme.test (10.0.0.1) ports 5-3 with 100 workers...''],
      calls = [Resolve (py ''scanme.test'')]\<rparr>"
proof -
  have s: "str_int 5 = py ''5''" "str_int 3 = py ''3''" "str_int 100 = py ''100''" by code_simp+
  show ?thesis
    by (simp add: scan_ports_def lab_world_def scanning_banner_def s)
qed

text \<open>
  Claim C3, amended: for \<open>start_port > end_port\<close>, \<open>scan_ports\<close> itself reports no validation
  error; for a host that resolves and a positive worker count it prints its banner, submits
  no connection attempt and returns the empty list. The range is rejected by the menu handler
  \<open>_handle_scan\<close>: when the operator enters a host and two integers with the end below the
  start, the handler prints "Invalid port range." and returns without calling \<open>scan_ports\<close>,
  so that no name is resolved and no connection attempt is scheduled.
\<close>

theorem reversed_range_rejected_by_handler:
  assumes "end_port < start_port"
  shows "(gethostbyname w host = Inr addr \<and> 0 < concurrency \<and>
          completion_order start_port end_port order \<longrightarrow>
            scan_ports w host start_port end_port timeout concurrency order interrupt =
              \<lparr>ret = Inr [],
               printed = [scanning_banner host addr start_port end_port concurrency],
               calls = [Resolve host]\<rparr>) \<and>
         (strip line1 \<noteq> [] \<and> py_int w (strip line2) = Some start_port \<and>
          py_int w (strip line3) = Some end_port \<longrightarrow>
            handle_scan w (line1 # line2 # line3 # stdin) order' interrupt =
              \<lparr>ret = Inr (),
               printed = [py ''Host to scan: '', py ''Start port (e.g. 1): '', py ''End port (e.g. 1024): '',
                          py ''Invalid port range.''],
               calls = []\<rparr>)"
proof -
  have "order = []" if "completion_order start_port end_port order"
    using that assms by (simp add: completion_order_def)
  then have a: "scan_ports w host start_port end_port timeout concurrency order interrupt =
              \<lparr>ret = Inr [],
               printed = [scanning_banner host addr start_port end_port concurrency],
               calls = [Resolve host]\<rparr>"
    if "gethostbyname w host = Inr addr" "0 < concurrency" "completion_order start_port end_port order"
    using that assms by (simp add: scan_ports_def split: option.splits)
  have b: "handle_scan w (line1 # line2 # line3 # stdin) order' interrupt =
              \<lparr>ret = Inr (),
               printed = [py ''Host to scan: '', py ''Start port (e.g. 1): '', py ''End port (e.g. 1024): '',
                          py ''Invalid port range.''],
               calls = []\<rparr>"
    if "strip line1 \<noteq> []" "py_int w (strip line2) = Some start_port"
       "py_int w (strip line3) = Some end_port"
    using that assms by (simp add: handle_scan_def)
  show ?thesis using a b by blast
qed

theorem reversed_range_rejected_by_handler_witness:
  "(3::int) < 5 \<and>
   gethostbyname lab_world (py ''scanme.test'') = Inr (py ''10.0.0.1'') \<and> (0::int) < 100 \<and>
   completion_order 5 3 [] \<and>
   scan_ports lab_world (py ''scanme.test'') 5 3 0.5 100 [] None =
     \<lparr>ret = Inr [], printed = [scanning_banner (py ''scanme.test'') (py ''10.0.0.1'') 5 3 100],
      calls = [Resolve (py ''scanme.test'')]\<rparr> \<and>
   strip (py '' scanme.test '') \<noteq> [] \<and> py_int lab_world (strip (py ''5'')) = Some 5 \<and>
   py_int lab_world (strip (py ''3'')) = Some 3 \<and>
   handle_scan lab_world [py '' scanme.test '', py ''5'', py ''3''] [] None =
     \<lparr>ret = Inr (),
      printed = [py ''Host to scan: '', py ''Start port (e.g. 1): '', py ''End port (e.g. 1024): '',
                 py ''Invalid port range.''],
      calls = []\<rparr> \<and>
   strip [0xA0, 0x3000] = [] \<and>
   handle_scan lab_world [[0xA0, 0x3000], py ''5'', py ''3''] [] None =
     \<lparr>ret = Inr (), printed = [py ''Host to scan: '', py ''No host entered.''], calls = []\<rparr>"
proof -
  have h: "(3::int) < 5" by simp
  have r: "gethostbyname lab_world (py ''scanme.test'') = Inr (py ''10.0.0.1'')"
    by (simp add: lab_world_def)
  have c: "completion_order 5 3 []" by (simp add: completion_order_def)
  have s: "strip (py '' scanme.test '') \<noteq> []" "strip (py ''5'') = py ''5''" "strip (py ''3'') = py ''3''"
    by (simp_all add: strip_def is_space_def)
  have i: "py_int lab_world (py ''5'') = Some 5" "py_int lab_world (py ''3'') = Some 3"
    by (simp_all add: lab_world_def)
  have n: "strip [0xA0, 0x3000] = []"
    "handle_scan lab_world [[0xA0, 0x3000], py ''5'', py ''3''] [] None =
       \<lparr>ret = Inr (), printed = [py ''Host to scan: '', py ''No host entered.''], calls = []\<rparr>"
    by (simp_all add: handle_scan_def strip_def is_space_def)
  show ?thesis
    using h r c s i n
      reversed_range_rejected_by_handler [OF h, of lab_world "(py ''scanme.test'')" "(py ''10.0.0.1'')" 100 "[]"
        "0.5" None "(py '' scanme.test '')" "(py ''5'')" "(py ''3'')" "[]" "[]"]
    by simp
qed

text \<open>
  Claim C4: for a host whose name does not resolve, \<open>scan_ports\<close> returns the empty list,
  prints "Could not resolve host ..." and makes no call besides the resolution itself: no
  probe is submitted. The failure can be told from a completed scan that found nothing by
  what is printed: a scan of a host that resolves begins with the banner "Scanning ...",
  so its output is never the output of the failed resolution. (The returned list is empty in
  both cases.)
\<close>

theorem scan_ports_unresolved_host:
  assumes "gethostbyname w host = Inl e"
  shows "scan_ports w host start_port end_port timeout concurrency order interrupt =
           \<lparr>ret = Inr [], printed = [could_not_resolve host e], calls = [Resolve host]\<rparr> \<and>
         (\<forall>host' addr s' e' t' c' order' interrupt'.
            gethostbyname w host' = Inr addr \<longrightarrow>
            printed (scan_ports w host' s' e' t' c' order' interrupt') \<noteq>
            printed (scan_ports w host start_port end_port timeout concurrency order interrupt))"
proof -
  have a: "scan_ports w host start_port end_port timeout concurrency order interrupt =
           \<lparr>ret = Inr [], printed = [could_not_resolve host e], calls = [Resolve host]\<rparr>"
    using assms by (simp add: scan_ports_def)
  have b: "printed (scan_ports w host' s' e' t' c' order' interrupt') \<noteq> [could_not_resolve host e]"
    if "gethostbyname w host' = Inr addr" for host' addr s' e' t' c' order' interrupt'
  proof -
    have "hd (printed (scan_ports w host' s' e' t' c' order' interrupt')) =
          scanning_banner host' addr s' e' c'"
      using that by (simp add: scan_ports_def Let_def split: prod.splits)
    moreover have "scanning_banner host' addr s' e' c' \<noteq> could_not_resolve host e"
      by (simp add: scanning_banner_def could_not_resolve_def)
    ultimately show ?thesis by auto
  qed
  show ?thesis using a b by simp
qed

theorem scan_ports_unresolved_host_witness:
  "gethostbyname lab_world (py ''nohost.test'') = Inl (py ''[Errno -2] Name or service not known'') \<and>
   scan_ports lab_world (py ''nohost.test'') 1 10 0.5 100 [3, 9, 1, 10, 2, 7, 5, 4, 8, 6] None =
     \<lparr>ret = Inr [],
      printed = [(py ''Could not resolve host '') @ [0x27] @ py ''nohost.test'' @ [0x27] @
                 (py '': [Errno -2] Name or service not known'')],
      calls = [Resolve (py ''nohost.test'')]\<rparr> \<and>
   gethostbyname lab_world (py ''scanme.test'') = Inr (py ''10.0.0.1'') \<and>
   ret (scan_ports lab_world (py ''scanme.test'') 1 6 0.5 100 [1, 2, 3, 4, 5, 6] None) = Inr [] \<and>
   printed (scan_ports lab_world (py ''scanme.test'') 1 6 0.5 100 [1, 2, 3, 4, 5, 6] None) =
     [py ''Scanning scanme.test (10.0.0.1) ports 1-6 with 100 workers...'']"
proof -
  have h: "gethostbyname lab_world (py ''nohost.test'') = Inl (py ''[Errno -2] Name or service not known'')"
    by (simp add: lab_world_def)
  have s: "str_int 1 = py ''1''" "str_int 6 = py ''6''" "str_int 100 = py ''100''" by code_simp+
  have p: "scan_ports lab_world (py ''scanme.test'') 1 6 0.5 100 [1, 2, 3, 4, 5, 6] None =
     \<lparr>ret = Inr [], printed = [py ''Scanning scanme.test (10.0.0.1) ports 1-6 with 100 workers...''],
      calls = Resolve (py ''scanme.test'') # map (\<lambda>p. Submit (py ''10.0.0.1'') p 0.5) [1..6]\<rparr>"
    by (simp add: scan_ports_def lab_world_def collect_eq scanning_banner_def s)
  show ?thesis
    using h p scan_ports_unresolved_host [OF h, of 1 10 "0.5" 100 "[3, 9, 1, 10, 2, 7, 5, 4, 8, 6]" None]
    by (simp add: could_not_resolve_def lab_world_def)
qed

text \<open>
  Claim C5: two runs of \<open>scan_ports\<close> to the end of the scan, on the same world (so with the
  same outcome of every port), host, range and time-out, return the same result whatever
  their worker counts (both at least 1) and whatever the orders in which their probes
  complete.
\<close>

theorem scan_ports_order_independent:
  assumes "completion_order s e order1" and "completion_order s e order2"
    and "1 \<le> c1" and "1 \<le> c2"
  shows "ret (scan_ports w host s e t c1 order1 None) = ret (scan_ports w host s e t c2 order2 None)"
proof (cases "gethostbyname w host")
  case (Inl err)
  then show ?thesis by (simp add: scan_ports_def)
next
  case (Inr addr)
  have "mset order1 = mset order2" using assms(1,2) by (simp add: completion_order_def)
  then have "sort (filter (\<lambda>p. connect_ex w addr p t = Inr 0) order1) =
             sort (filter (\<lambda>p. connect_ex w addr p t = Inr 0) order2)"
    by (rule sort_filter_perm)
  then show ?thesis
    using scan_ports_resolved(1) [OF Inr, of c1 s e t order1 None]
      scan_ports_resolved(1) [OF Inr, of c2 s e t order2 None] assms(3,4)
    by simp
qed

theorem scan_ports_order_independent_witness:
  "completion_order 1 10 [3, 9, 1, 10, 2, 7, 5, 4, 8, 6] \<and>
   completion_order 1 10 [10, 9, 8, 7, 6, 5, 4, 3, 2, 1] \<and> (1::int) \<le> 100 \<and> (1::int) \<le> 1 \<and>
   ret (scan_ports lab_world (py ''scanme.test'') 1 10 0.5 100 [3, 9, 1, 10, 2, 7, 5, 4, 8, 6] None) =
   ret (scan_ports lab_world (py ''scanme.test'') 1 10 0.5 1 [10, 9, 8, 7, 6, 5, 4, 3, 2, 1] None) \<and>
   ret (scan_ports lab_world (py ''scanme.test'') 1 10 0.5 1 [10, 9, 8, 7, 6, 5, 4, 3, 2, 1] None) =
     Inr [7, 9]"
proof -
  have h1: "completion_order 1 10 [3, 9, 1, 10, 2, 7, 5, 4, 8, 6]"
    unfolding completion_order_def by code_simp
  have h2: "completion_order 1 10 [10, 9, 8, 7, 6, 5, 4, 3, 2, 1]"
    unfolding completion_order_def by code_simp
  have h3: "(1::int) \<le> 100" and h4: "(1::int) \<le> 1" by simp_all
  have r: "ret (scan_ports lab_world (py ''scanme.test'') 1 10 0.5 1 [10, 9, 8, 7, 6, 5, 4, 3, 2, 1] None) =
           Inr [7, 9]"
    by (simp add: scan_ports_def lab_world_def collect_eq)
  show ?thesis
    using h1 h2 r scan_ports_order_independent [OF h1 h2 h3 h4, of lab_world "(py ''scanme.test'')" "0.5"]
    by simp
qed

section \<open>Properties of the connectivity prober\<close>

text \<open>
  Claim C7, as stated in the specification: the probe applies the configured time-out on
  every path and never raises. Without a \<^verbatim>\<open>ping\<close> executable the probe with a time-out of
  3 seconds connects with a time-out of 1 second; and an exception of \<^verbatim>\<open>subprocess.run\<close>
  that is none of the three caught (here ValueError, for a host name with a null byte) leaves
  the method.
\<close>

theorem ping_host_fallback_timeout_and_raise:
  "calls (ping_host no_ping_world (py ''192.0.2.1'') 3 1) =
     [Run_Process [py ''ping'', py ''-c'', py ''1'', py ''192.0.2.1''] 3, Create_Connection (py ''192.0.2.1'') 80 1] \<and>
   ret (ping_host lab_world [cp CHR ''a'', 0] 3 1) = Inl ValueError"
proof -
  have s: "str_int 1 = py ''1''" by code_simp
  have l: "lower (py ''Linux'') \<noteq> py ''windows''" by code_simp
  show ?thesis
    using l by (simp add: ping_host_def ping_cmd_def no_ping_world_def lab_world_def s)
qed

text \<open>
  Claim C7, amended: the probe runs the platform's \<^verbatim>\<open>ping\<close> command under the configured
  time-out. It returns false when that time-out expires and when the command exits with a
  non-zero status (true when it exits with status 0). When the executable is not found it
  makes one TCP connection attempt to port 80 of the host under a fixed time-out of 1 second
  and returns whether the connection was made. In all these cases it returns a boolean and
  raises nothing.
\<close>

theorem ping_host_outcomes:
  "hd (calls (ping_host w host timeout cnt)) = Run_Process (ping_cmd w host cnt) timeout \<and>
   (subprocess_run w (ping_cmd w host cnt) timeout = TimeoutExpired \<longrightarrow>
      ret (ping_host w host timeout cnt) = Inr False) \<and>
   (\<forall>status. subprocess_run w (ping_cmd w host cnt) timeout = Exited status \<longrightarrow>
      ret (ping_host w host timeout cnt) = Inr (status = 0)) \<and>
   (subprocess_run w (ping_cmd w host cnt) timeout = FileNotFoundError \<longrightarrow>
      ret (ping_host w host timeout cnt) = Inr (create_connection w host 80 1) \<and>
      calls (ping_host w host timeout cnt) =
        [Run_Process (ping_cmd w host cnt) timeout, Create_Connection host 80 1]) \<and>
   ((\<forall>err. subprocess_run w (ping_cmd w host cnt) timeout \<noteq> Raised err) \<longrightarrow>
      (\<exists>reachable. ret (ping_host w host timeout cnt) = Inr reachable))"
proof (cases "subprocess_run w (ping_cmd w host cnt) timeout")
  case (Exited status)
  then show ?thesis by (simp add: ping_host_def)
next
  case TimeoutExpired
  then show ?thesis by (auto simp add: ping_host_def)
next
  case FileNotFoundError
  then show ?thesis by (simp add: ping_host_def)
next
  case (Raised err)
  then have "hd (calls (ping_host w host timeout cnt)) = Run_Process (ping_cmd w host cnt) timeout"
    by (simp add: ping_host_def)
  with Raised show ?thesis by simp
qed

theorem ping_host_outcomes_witness:
  "subprocess_run lab_world (ping_cmd lab_world (py ''slow.test'') 1) 3 = TimeoutExpired \<and>
   ret (ping_host lab_world (py ''slow.test'') 3 1) = Inr False \<and>
   subprocess_run lab_world (ping_cmd lab_world (py ''down.test'') 1) 3 = Exited 1 \<and>
   ret (ping_host lab_world (py ''down.test'') 3 1) = Inr False \<and>
   subprocess_run no_ping_world (ping_cmd no_ping_world (py ''scanme.test'') 1) 3 = FileNotFoundError \<and>
   ret (ping_host no_ping_world (py ''scanme.test'') 3 1) = Inr False \<and>
   calls (ping_host no_ping_world (py ''scanme.test'') 3 1) =
     [Run_Process (ping_cmd no_ping_world (py ''scanme.test'') 1) 3,
      Create_Connection (py ''scanme.test'') 80 1]"
proof -
  have l: "lower (py ''Linux'') \<noteq> py ''windows''" by code_simp
  have a: "subprocess_run lab_world (ping_cmd lab_world (py ''slow.test'') 1) 3 = TimeoutExpired"
    and b: "subprocess_run lab_world (ping_cmd lab_world (py ''down.test'') 1) 3 = Exited 1"
    and c: "subprocess_run no_ping_world (ping_cmd no_ping_world (py ''scanme.test'') 1) 3 =
            FileNotFoundError"
    using l by (simp_all add: ping_cmd_def lab_world_def no_ping_world_def)
  have e: "create_connection no_ping_world (py ''scanme.test'') 80 1 = False"
    by (simp add: no_ping_world_def lab_world_def)
  show ?thesis
    using a b c e
      ping_host_outcomes [of lab_world "(py ''slow.test'')" 3 1]
      ping_host_outcomes [of lab_world "(py ''down.test'')" 3 1]
      ping_host_outcomes [of no_ping_world "(py ''scanme.test'')" 3 1]
    by simp
qed

section \<open>Properties of neighbor discovery\<close>

subsection \<open>What the patterns can match\<close>

text \<open>
  Every way in which a repeated class matches splits the input into the text matched and
  the rest; the text matched has a length within the bounds and lies in the class.
\<close>

lemma rx_rep_elem:
  assumes "(a, r) \<in> set (rx_rep P lo hi s)"
  shows "s = a @ r" and "lo \<le> length a" and "\<And>h. hi = Some h \<Longrightarrow> length a \<le> h"
    and "\<And>c. c \<in> set a \<Longrightarrow> P c"
proof -
  let ?n = "length (takeWhile P s)"
  let ?m = "case hi of None \<Rightarrow> ?n | Some h \<Rightarrow> min h ?n"
  from assms obtain k where k: "lo \<le> k" "k \<le> ?m" "a = take k s" "r = drop k s"
    by (auto simp: rx_rep_def Let_def)
  have mn: "?m \<le> ?n" by (cases hi) auto
  have kn: "k \<le> ?n" using k(2) mn by linarith
  have ns: "?n \<le> length s" by (rule length_takeWhile_le)
  show "s = a @ r" by (simp add: k)
  have la: "length a = k" using kn ns by (simp add: k)
  show "lo \<le> length a" using k(1) la by simp
  show "length a \<le> h" if "hi = Some h" for h using k(2) la that by simp
  have "take k s = take k (takeWhile P s @ dropWhile P s)" by simp
  also have "\<dots> = take k (takeWhile P s)" using kn by (simp del: takeWhile_dropWhile_id)
  finally have "set a \<subseteq> set (takeWhile P s)" using k(3) by (simp add: set_take_subset)
  then show "P c" if "c \<in> set a" for c using that by (auto dest: set_takeWhileD)
qed

lemma set_rx_then:
  "set (rx_then p q s) = (\<Union>x \<in> set (p s). (\<lambda>y. (fst x @ fst y, snd y)) ` set (q (snd x)))"
  by (simp add: rx_then_def case_prod_unfold)

lemma rx_then_elem:
  "(a, r) \<in> set (rx_then p q s) \<longleftrightarrow>
     (\<exists>a1 r1 a2. (a1, r1) \<in> set (p s) \<and> (a2, r) \<in> set (q r1) \<and> a = a1 @ a2)"
  unfolding set_rx_then by force


subsection \<open>Groups of a normalized address\<close>

lemma split_colon_not_Nil: "split_colon s \<noteq> []"
  by (cases s) simp_all

lemma split_colon_group:
  "cp CHR '':'' \<notin> set g \<Longrightarrow> split_colon (g @ cp CHR '':'' # rest) = g # split_colon rest"
  by (induction g) auto

lemma split_colon_last: "cp CHR '':'' \<notin> set g \<Longrightarrow> split_colon g = [g]"
  by (induction g) auto

lemma normalize_mac_append: "normalize_mac (a @ b) = normalize_mac a @ normalize_mac b"
  by (simp add: normalize_mac_def upper_def)

lemma upper_char_colon: "upper_char (cp CHR '':'') = cp CHR '':''"
  by (simp add: upper_char_def)

lemma normalize_mac_delim:
  "colon_or_hyphen d \<Longrightarrow> normalize_mac [d] = py '':''"
  by (auto simp: normalize_mac_def upper_def upper_char_def colon_or_hyphen_def)

lemma hex_digit_normalized:
  assumes "hex_digit c"
  shows "upper_hex_digit (upper_char c)" and "cp CHR '':'' \<noteq> upper_char c"
    and "c \<noteq> cp CHR ''-''"
  using assms by (auto simp: hex_digit_def upper_hex_digit_def upper_char_def)

lemma normalize_mac_hex:
  assumes "\<And>c. c \<in> set g \<Longrightarrow> hex_digit c"
  shows "normalize_mac g = upper g" and "cp CHR '':'' \<notin> set (normalize_mac g)"
    and "list_all upper_hex_digit (normalize_mac g)"
proof -
  have "map (\<lambda>c. if c = cp CHR ''-'' then cp CHR '':'' else c) g = g"
    using assms by (induction g) (auto dest: hex_digit_normalized(3) [simplified])
  then show n: "normalize_mac g = upper g" by (simp add: normalize_mac_def)
  have "cp CHR '':'' \<noteq> upper_char x" if "x \<in> set g" for x
    using hex_digit_normalized(2) [OF assms [OF that]] .
  then show "cp CHR '':'' \<notin> set (normalize_mac g)"
    unfolding n upper_def by auto
  show "list_all upper_hex_digit (normalize_mac g)"
    unfolding n upper_def using assms by (auto simp: list_all_iff dest: hex_digit_normalized(1))
qed

lemma length_normalize_mac: "length (normalize_mac m) = length m"
  by (simp add: normalize_mac_def upper_def)


text \<open>
  The address sub-pattern: five groups of one or two hexadecimal digits, each followed by a
  delimiter, and a sixth group. Normalized, the text it matches splits at its colons into six
  groups of one or two uppercase hexadecimal digits.
\<close>

lemma rx_group_delim_elem:
  assumes "(a, r) \<in> set (rx_then (rx_rep hex_digit 1 (Some 2)) (rx_rep D 1 (Some 1)) s)"
  shows "\<exists>g d. a = g @ [d] \<and> 1 \<le> length g \<and> length g \<le> 2 \<and>
           (\<forall>c \<in> set g. hex_digit c) \<and> D d"
proof -
  from iffD1 [OF rx_then_elem assms] obtain g r1 x
    where g: "(g, r1) \<in> set (rx_rep hex_digit 1 (Some 2) s)"
      and x: "(x, r) \<in> set (rx_rep D 1 (Some 1) r1)" and a: "a = g @ x"
    by blast
  have "1 \<le> length x" and "length x \<le> 1"
    using rx_rep_elem(2,3) [OF x] by simp_all
  then obtain d where d: "x = [d]" by (cases x) auto
  have "D d" using rx_rep_elem(4) [OF x, of d] d by simp
  moreover have "1 \<le> length g" and "length g \<le> 2"
    using rx_rep_elem(2,3) [OF g] by simp_all
  moreover have "hex_digit c" if "c \<in> set g" for c
    using rx_rep_elem(4) [OF g that] .
  ultimately show ?thesis using a d by blast
qed

lemma rx_times_elem:
  assumes D: "\<And>c. D c \<Longrightarrow> colon_or_hyphen c"
    and "(a, r) \<in> set (rx_times n (rx_then (rx_rep hex_digit 1 (Some 2)) (rx_rep D 1 (Some 1))) s)"
  shows "\<exists>gs. length gs = n \<and>
           (\<forall>g \<in> set gs. 1 \<le> length g \<and> length g \<le> 2 \<and> list_all upper_hex_digit g) \<and>
           length a = sum_list (map length gs) + n \<and>
           (\<forall>rest. split_colon (normalize_mac (a @ rest)) = gs @ split_colon (normalize_mac rest))"
  using assms(2)
proof (induction n arbitrary: a s)
  case 0
  then show ?case by simp
next
  case (Suc n)
  let ?U = "rx_then (rx_rep hex_digit 1 (Some 2)) (rx_rep D 1 (Some 1))"
  from Suc.prems have "(a, r) \<in> set (rx_then ?U (rx_times n ?U) s)"
    by (simp only: rx_times.simps)
  from iffD1 [OF rx_then_elem this] obtain a1 r1 a2
    where a1: "(a1, r1) \<in> set (?U s)" and a2: "(a2, r) \<in> set (rx_times n ?U r1)"
      and a: "a = a1 @ a2"
    by blast
  from rx_group_delim_elem [OF a1] obtain g d
    where gd: "a1 = g @ [d]" "1 \<le> length g" "length g \<le> 2" "\<forall>c \<in> set g. hex_digit c" "D d"
    by blast
  from Suc.IH [OF a2] obtain gs where gs: "length gs = n"
    "\<forall>g \<in> set gs. 1 \<le> length g \<and> length g \<le> 2 \<and> list_all upper_hex_digit g"
    "length a2 = sum_list (map length gs) + n"
    "\<forall>rest. split_colon (normalize_mac (a2 @ rest)) = gs @ split_colon (normalize_mac rest)"
    by blast
  let ?g = "normalize_mac g"
  have ng: "cp CHR '':'' \<notin> set ?g" "list_all upper_hex_digit ?g"
    using normalize_mac_hex(2,3) [of g] gd(4) by blast+
  have nd: "normalize_mac [d] = py '':''"
    using normalize_mac_delim [OF D [OF gd(5)]] .
  have sp: "split_colon (normalize_mac (a @ rest)) = (?g # gs) @ split_colon (normalize_mac rest)"
    for rest
  proof -
    have "normalize_mac (a @ rest) = ?g @ normalize_mac [d] @ normalize_mac (a2 @ rest)"
      by (simp add: a gd(1) normalize_mac_def upper_def)
    then have "normalize_mac (a @ rest) = ?g @ cp CHR '':'' # normalize_mac (a2 @ rest)"
      using nd by simp
    then show ?thesis using gs(4) ng(1) by (simp add: split_colon_group [simplified])
  qed
  show ?case
  proof (intro exI [of _ "?g # gs"] conjI allI)
    show "length (?g # gs) = Suc n" using gs(1) by simp
    show "\<forall>g \<in> set (?g # gs). 1 \<le> length g \<and> length g \<le> 2 \<and> list_all upper_hex_digit g"
      using gs(2) ng(2) gd(2,3) by (simp add: length_normalize_mac)
    show "length a = sum_list (map length (?g # gs)) + Suc n"
      using gs(3) by (simp add: a gd(1) length_normalize_mac)
    show "split_colon (normalize_mac (a @ rest)) = (?g # gs) @ split_colon (normalize_mac rest)"
      for rest by (rule sp)
  qed
qed

lemma rx_mac_elem:
  assumes D: "\<And>c. D c \<Longrightarrow> colon_or_hyphen c"
    and "(m, r) \<in> set (rx_mac D s)"
  shows "\<exists>gs. split_colon (normalize_mac m) = gs \<and> length gs = 6 \<and>
           (\<forall>g \<in> set gs. 1 \<le> length g \<and> length g \<le> 2 \<and> list_all upper_hex_digit g) \<and>
           length m = sum_list (map length gs) + 5"
proof -
  let ?U = "rx_then (rx_rep hex_digit 1 (Some 2)) (rx_rep D 1 (Some 1))"
  from assms(2) have "(m, r) \<in> set (rx_then (rx_times 5 ?U) (rx_rep hex_digit 1 (Some 2)) s)"
    by (simp only: rx_mac_def)
  from iffD1 [OF rx_then_elem this] obtain a r1 g
    where a: "(a, r1) \<in> set (rx_times 5 ?U s)"
      and g: "(g, r) \<in> set (rx_rep hex_digit 1 (Some 2) r1)" and m: "m = a @ g"
    by blast
  from rx_times_elem [OF D a] obtain gs where gs: "length gs = 5"
    "\<forall>g \<in> set gs. 1 \<le> length g \<and> length g \<le> 2 \<and> list_all upper_hex_digit g"
    "length a = sum_list (map length gs) + 5"
    "\<forall>rest. split_colon (normalize_mac (a @ rest)) = gs @ split_colon (normalize_mac rest)"
    by blast
  have hg: "hex_digit c" if "c \<in> set g" for c using rx_rep_elem(4) [OF g that] .
  have lg: "1 \<le> length g" "length g \<le> 2" using rx_rep_elem(2,3) [OF g] by simp_all
  let ?g = "normalize_mac g"
  have ng: "cp CHR '':'' \<notin> set ?g" "list_all upper_hex_digit ?g"
    using normalize_mac_hex(2,3) [of g] hg by blast+
  have "split_colon (normalize_mac m) = gs @ [?g]"
    using gs(4) ng(1) by (simp add: m split_colon_last)
  moreover have "length (gs @ [?g]) = 6" using gs(1) by simp
  moreover have "\<forall>g \<in> set (gs @ [?g]). 1 \<le> length g \<and> length g \<le> 2 \<and> list_all upper_hex_digit g"
    using gs(2) ng(2) lg by (simp add: length_normalize_mac)
  moreover have "length m = sum_list (map length (gs @ [?g])) + 5"
    using gs(3) by (simp add: m length_normalize_mac)
  ultimately show ?thesis by blast
qed

lemma first_match_elem: "first_match ms = Some x \<Longrightarrow> x \<in> set ms"
  by (cases ms) (simp_all add: first_match_def)

lemma linux_mac_matches_elem:
  assumes "(i, m) \<in> set (linux_mac_matches w line)"
  shows "\<exists>s r. (m, r) \<in> set (rx_mac colon_or_hyphen s)"
  using assms unfolding linux_mac_matches_def by auto

lemma windows_matches_elem:
  assumes "(i, m) \<in> set (windows_matches w line)"
  shows "\<exists>s r. (m, r) \<in> set (rx_mac hyphen s)"
  using assms unfolding windows_matches_def by auto

lemma match_line_elem:
  assumes "match_line w line = Some (i, m)"
  shows "\<exists>D s r. (\<forall>c. D c \<longrightarrow> colon_or_hyphen c) \<and> (m, r) \<in> set (rx_mac D s)"
proof (cases "linux_mac_pattern w line")
  case None
  with assms have "(i, m) \<in> set (windows_matches w line)"
    by (simp add: match_line_def windows_pattern_def first_match_elem)
  from windows_matches_elem [OF this] show ?thesis
    by (auto simp: hyphen_def colon_or_hyphen_def intro!: exI [of _ hyphen])
next
  case (Some x)
  with assms have "(i, m) \<in> set (linux_mac_matches w line)"
    by (simp add: match_line_def linux_mac_pattern_def first_match_elem)
  from linux_mac_matches_elem [OF this] show ?thesis
    by (auto intro!: exI [of _ colon_or_hyphen])
qed


lemma sum_length_le:
  "\<forall>g \<in> set gs. length g \<le> (2::nat) \<Longrightarrow> sum_list (map length gs) \<le> 2 * length gs"
  by (induction gs) auto

lemma sum_length_pairs:
  assumes "\<forall>g \<in> set gs. length g \<le> (2::nat)"
  shows "sum_list (map length gs) = 2 * length gs \<longleftrightarrow> (\<forall>g \<in> set gs. length g = 2)"
  using assms
proof (induction gs)
  case Nil
  then show ?case by simp
next
  case (Cons g gs)
  then have "sum_list (map length gs) \<le> 2 * length gs" by (intro sum_length_le) simp
  with Cons show ?case by auto
qed

lemma normalize_char_table:
  "upper_char (if lower_char c = cp CHR ''-'' then cp CHR '':'' else lower_char c) =
     upper_char (if c = cp CHR ''-'' then cp CHR '':'' else c)"
  "upper_char (if upper_char c = cp CHR ''-'' then cp CHR '':'' else upper_char c) =
     upper_char (if c = cp CHR ''-'' then cp CHR '':'' else c)"
  "upper_char (if (if c = cp CHR '':'' then cp CHR ''-'' else c) = cp CHR ''-'' then cp CHR '':''
               else (if c = cp CHR '':'' then cp CHR ''-'' else c)) =
     upper_char (if c = cp CHR ''-'' then cp CHR '':'' else c)"
  by (auto simp: upper_char_def lower_char_def)

lemma normalize_mac_regardless:
  "normalize_mac (lower m) = normalize_mac m"
  "normalize_mac (upper m) = normalize_mac m"
  "normalize_mac (map (\<lambda>c. if c = cp CHR '':'' then cp CHR ''-'' else c) m) = normalize_mac m"
  using normalize_char_table by (simp_all add: normalize_mac_def upper_def lower_def)

text \<open>
  Claim C6, as stated in the specification: every extracted address is normalized to
  uppercase hexadecimal pairs joined by colons, so that one hardware address reported by
  different tools compares equal. The patterns accept a group of one digit, as macOS prints
  it, and the normalization does not pad: the address \<^verbatim>\<open>00:1a:2b:3c:4d:5e\<close>, printed by
  macOS as \<^verbatim>\<open>0:1a:2b:3c:4d:5e\<close> and by Windows as \<^verbatim>\<open>00-1a-2b-3c-4d-5e\<close>, gives two
  different records, the first of which is not made of pairs.
\<close>

theorem arp_devices_unpadded_group:
  "arp_devices lab_world (py ''? (192.168.1.1) at 0:1a:2b:3c:4d:5e on en0 ifscope [ethernet]'') =
     [\<lparr>ip = py ''192.168.1.1'', mac = py ''0:1A:2B:3C:4D:5E''\<rparr>] \<and>
   \<not> canonical_mac (py ''0:1A:2B:3C:4D:5E'') \<and>
   arp_devices lab_world (py ''  192.168.1.1           00-1a-2b-3c-4d-5e     dynamic'') =
     [\<lparr>ip = py ''192.168.1.1'', mac = py ''00:1A:2B:3C:4D:5E''\<rparr>]"
  by code_simp


text \<open>
  Claim C6, amended: neighbor discovery normalizes every extracted address by replacing each
  hyphen by a colon and each letter by its capital. The result is six groups of one or two
  uppercase hexadecimal digits joined by colons, whatever the delimiter and the letter case
  of the source; it is six pairs exactly when the source has two digits in every group
  (17 characters), since no group is padded. In particular \<^verbatim>\<open>1a-2b-3c-4d-5e-6f\<close> and
  \<^verbatim>\<open>1A:2B:3C:4D:5E:6F\<close> both normalize to \<^verbatim>\<open>1A:2B:3C:4D:5E:6F\<close>.
\<close>

theorem normalized_mac_groups:
  assumes "match_line w line = Some (g_ip, g_mac)"
  shows "hex_groups 1 2 (normalize_mac g_mac) \<and>
         (canonical_mac (normalize_mac g_mac) \<longleftrightarrow> length g_mac = 17) \<and>
         normalize_mac (lower g_mac) = normalize_mac g_mac \<and>
         normalize_mac (upper g_mac) = normalize_mac g_mac \<and>
         normalize_mac (map (\<lambda>c. if c = cp CHR '':'' then cp CHR ''-'' else c) g_mac) =
           normalize_mac g_mac \<and>
         normalize_mac (py ''1a-2b-3c-4d-5e-6f'') = py ''1A:2B:3C:4D:5E:6F'' \<and>
         normalize_mac (py ''1A:2B:3C:4D:5E:6F'') = py ''1A:2B:3C:4D:5E:6F''"
proof -
  from match_line_elem [OF assms] obtain D s r
    where D: "\<And>c. D c \<Longrightarrow> colon_or_hyphen c" and m: "(g_mac, r) \<in> set (rx_mac D s)"
    by blast
  from rx_mac_elem [OF D m] obtain gs
    where gs: "split_colon (normalize_mac g_mac) = gs" "length gs = 6"
      "\<forall>g \<in> set gs. 1 \<le> length g \<and> length g \<le> 2 \<and> list_all upper_hex_digit g"
      "length g_mac = sum_list (map length gs) + 5"
    by blast
  have a: "hex_groups 1 2 (normalize_mac g_mac)"
    using gs(2,3) by (simp add: hex_groups_def gs(1) list_all_iff)
  have "canonical_mac (normalize_mac g_mac) \<longleftrightarrow> (\<forall>g \<in> set gs. length g = 2)"
    using gs(2,3) by (auto simp: canonical_mac_def hex_groups_def gs(1) list_all_iff intro: le_antisym)
  also have "\<dots> \<longleftrightarrow> sum_list (map length gs) = 2 * length gs"
    using sum_length_pairs [of gs] gs(3) by blast
  also have "\<dots> \<longleftrightarrow> length g_mac = 17"
    using gs(2,4) by auto
  finally have b: "canonical_mac (normalize_mac g_mac) \<longleftrightarrow> length g_mac = 17" .
  have c: "normalize_mac (py ''1a-2b-3c-4d-5e-6f'') = py ''1A:2B:3C:4D:5E:6F''"
    and d: "normalize_mac (py ''1A:2B:3C:4D:5E:6F'') = py ''1A:2B:3C:4D:5E:6F''"
    by code_simp+
  show ?thesis using a b c d normalize_mac_regardless [of g_mac] by blast
qed

theorem normalized_mac_groups_witness:
  "match_line lab_world (py ''? (192.168.1.1) at 0:1a:2b:3c:4d:5e on en0 ifscope [ethernet]'') =
     Some (py ''192.168.1.1'', py ''0:1a:2b:3c:4d:5e'') \<and>
   hex_groups 1 2 (normalize_mac (py ''0:1a:2b:3c:4d:5e'')) \<and>
   \<not> canonical_mac (normalize_mac (py ''0:1a:2b:3c:4d:5e'')) \<and>
   match_line lab_world (py ''  192.168.1.7           1a-2b-3c-4d-5e-6f     dynamic'') =
     Some (py ''192.168.1.7'', py ''1a-2b-3c-4d-5e-6f'') \<and>
   canonical_mac (normalize_mac (py ''1a-2b-3c-4d-5e-6f'')) \<and>
   match_line lab_world (py ''(1.1.1.1) at 0:1:2:3:4:5 (2.2.2.2)'' @ [0xA0] @ py ''at'' @ [0xA0] @
                         py ''aa:bb:cc:dd:ee:ff'') =
     Some (py ''2.2.2.2'', py ''aa:bb:cc:dd:ee:ff'') \<and>
   hex_groups 1 2 (normalize_mac (py ''aa:bb:cc:dd:ee:ff''))"
proof -
  have h1: "match_line lab_world (py ''? (192.168.1.1) at 0:1a:2b:3c:4d:5e on en0 ifscope [ethernet]'') =
     Some (py ''192.168.1.1'', py ''0:1a:2b:3c:4d:5e'')"
    by code_simp
  have h2: "match_line lab_world (py ''  192.168.1.7           1a-2b-3c-4d-5e-6f     dynamic'') =
     Some (py ''192.168.1.7'', py ''1a-2b-3c-4d-5e-6f'')"
    by code_simp
  have h3: "match_line lab_world (py ''(1.1.1.1) at 0:1:2:3:4:5 (2.2.2.2)'' @ [0xA0] @ py ''at'' @ [0xA0] @
                         py ''aa:bb:cc:dd:ee:ff'') =
     Some (py ''2.2.2.2'', py ''aa:bb:cc:dd:ee:ff'')"
    by code_simp
  note t1 = normalized_mac_groups [OF h1] and t2 = normalized_mac_groups [OF h2]
    and t3 = normalized_mac_groups [OF h3]
  have d: "hex_groups 1 2 (normalize_mac (py ''aa:bb:cc:dd:ee:ff''))"
    using t3 by blast
  have a: "hex_groups 1 2 (normalize_mac (py ''0:1a:2b:3c:4d:5e''))"
    using t1 by blast
  have "length (py ''0:1a:2b:3c:4d:5e'') \<noteq> 17" by simp
  with t1 have b: "\<not> canonical_mac (normalize_mac (py ''0:1a:2b:3c:4d:5e''))"
    by blast
  have "length (py ''1a-2b-3c-4d-5e-6f'') = 17" by simp
  with t2 have c: "canonical_mac (normalize_mac (py ''1a-2b-3c-4d-5e-6f''))"
    by blast
  show ?thesis
    using h1 h2 h3 a b c d by blast
qed

subsection \<open>The loop over the lines\<close>

lemma scan_lines_eq:
  "scan_lines w ls devices =
     devices @ concat (map (\<lambda>line. case match_line w line of None \<Rightarrow> []
                                     | Some (i, m) \<Rightarrow> [\<lparr>ip = i, mac = normalize_mac m\<rparr>]) ls)"
  by (induction ls arbitrary: devices) (auto split: option.splits)

text \<open>
  Claim C9: each line of the output is tried against the pattern of Linux and macOS and then
  against the pattern of Windows. A line that matches neither adds nothing and is no error
  (\<open>discover_devices\<close> never raises); a line that matches adds one record at its place,
  between the records of the lines before it and of the lines after it, whether or not an
  equal record is already there. The table printed lists the records in that order.
\<close>

theorem discover_devices_line_by_line:
  "match_line w line =
     (case linux_mac_pattern w line of Some m \<Rightarrow> Some m | None \<Rightarrow> windows_pattern w line) \<and>
   scan_lines w (before @ after) [] = scan_lines w before [] @ scan_lines w after [] \<and>
   (linux_mac_pattern w line = None \<and> windows_pattern w line = None \<longrightarrow>
      scan_lines w (before @ line # after) [] = scan_lines w before [] @ scan_lines w after []) \<and>
   (\<forall>i m. match_line w line = Some (i, m) \<longrightarrow>
      scan_lines w (before @ line # after) [] =
        scan_lines w before [] @ \<lparr>ip = i, mac = normalize_mac m\<rparr> # scan_lines w after []) \<and>
   ret (discover_devices w) = Inr () \<and>
   (\<forall>cmd output. which_arp w = Some cmd \<and> arp_run w cmd = Inr output \<and> arp_devices w output \<noteq> [] \<longrightarrow>
      drop 3 (printed (discover_devices w)) = map device_row (scan_lines w (splitlines output) []))"
proof -
  have a: "scan_lines w (before @ after) [] = scan_lines w before [] @ scan_lines w after []"
    by (simp add: scan_lines_eq)
  have b: "scan_lines w (before @ line # after) [] = scan_lines w before [] @ scan_lines w after []"
    if "linux_mac_pattern w line = None" "windows_pattern w line = None"
    using that by (simp add: scan_lines_eq match_line_def)
  have c: "scan_lines w (before @ line # after) [] =
        scan_lines w before [] @ \<lparr>ip = i, mac = normalize_mac m\<rparr> # scan_lines w after []"
    if "match_line w line = Some (i, m)" for i m
    using that by (simp add: scan_lines_eq)
  have d: "ret (discover_devices w) = Inr ()"
    by (simp add: discover_devices_def split: option.splits sum.splits)
  have e: "drop 3 (printed (discover_devices w)) = map device_row (scan_lines w (splitlines out) [])"
    if "which_arp w = Some cmd" "arp_run w cmd = Inr out" "arp_devices w out \<noteq> []"
    for cmd out
    using that by (simp add: discover_devices_def devices_table_def arp_devices_def)
  show ?thesis using a b c d e by (simp add: match_line_def)
qed

theorem discover_devices_line_by_line_witness:
  "linux_mac_pattern lab_world (py ''Interface: 192.168.1.5 --- 0x3'') = None \<and>
   windows_pattern lab_world (py ''Interface: 192.168.1.5 --- 0x3'') = None \<and>
   scan_lines lab_world ([py ''? (192.168.1.1) at 0:1a:2b:3c:4d:5e on en0 ifscope [ethernet]''] @
               (py ''Interface: 192.168.1.5 --- 0x3'') #
               [py ''  192.168.1.7           1a-2b-3c-4d-5e-6f     dynamic'',
                py ''? (192.168.1.1) at 0:1a:2b:3c:4d:5e on en0 ifscope [ethernet]'']) [] =
     scan_lines lab_world [py ''? (192.168.1.1) at 0:1a:2b:3c:4d:5e on en0 ifscope [ethernet]''] [] @
     scan_lines lab_world [py ''  192.168.1.7           1a-2b-3c-4d-5e-6f     dynamic'',
                 py ''? (192.168.1.1) at 0:1a:2b:3c:4d:5e on en0 ifscope [ethernet]''] [] \<and>
   which_arp lab_world = Some (py ''/usr/sbin/arp'') \<and>
   arp_devices lab_world (projr (arp_run lab_world (py ''/usr/sbin/arp''))) =
     [\<lparr>ip = py ''192.168.1.1'', mac = py ''0:1A:2B:3C:4D:5E''\<rparr>,
      \<lparr>ip = py ''192.168.1.7'', mac = py ''1A:2B:3C:4D:5E:6F''\<rparr>,
      \<lparr>ip = py ''192.168.1.1'', mac = py ''0:1A:2B:3C:4D:5E''\<rparr>,
      \<lparr>ip = [0x661, 0x660, 0x2E, 0x660, 0x2E, 0x660, 0x2E, 0x669],
       mac = py ''0A:0B:0C:0D:0E:0F''\<rparr>] \<and>
   drop 3 (printed (discover_devices lab_world)) =
     [py ''192.168.1.1        0:1A:2B:3C:4D:5E  '',
      py ''192.168.1.7        1A:2B:3C:4D:5E:6F '',
      py ''192.168.1.1        0:1A:2B:3C:4D:5E  '',
      [0x661, 0x660, 0x2E, 0x660, 0x2E, 0x660, 0x2E, 0x669] @
        py ''           0A:0B:0C:0D:0E:0F '']"
proof -
  have n: "linux_mac_pattern lab_world (py ''Interface: 192.168.1.5 --- 0x3'') = None"
    "windows_pattern lab_world (py ''Interface: 192.168.1.5 --- 0x3'') = None"
    by code_simp+
  have w: "which_arp lab_world = Some (py ''/usr/sbin/arp'')"
    by (simp add: lab_world_def)
  have d: "arp_devices lab_world (projr (arp_run lab_world (py ''/usr/sbin/arp''))) =
     [\<lparr>ip = py ''192.168.1.1'', mac = py ''0:1A:2B:3C:4D:5E''\<rparr>,
      \<lparr>ip = py ''192.168.1.7'', mac = py ''1A:2B:3C:4D:5E:6F''\<rparr>,
      \<lparr>ip = py ''192.168.1.1'', mac = py ''0:1A:2B:3C:4D:5E''\<rparr>,
      \<lparr>ip = [0x661, 0x660, 0x2E, 0x660, 0x2E, 0x660, 0x2E, 0x669],
       mac = py ''0A:0B:0C:0D:0E:0F''\<rparr>]"
    by code_simp
  have p: "drop 3 (printed (discover_devices lab_world)) =
     [py ''192.168.1.1        0:1A:2B:3C:4D:5E  '',
      py ''192.168.1.7        1A:2B:3C:4D:5E:6F '',
      py ''192.168.1.1        0:1A:2B:3C:4D:5E  '',
      [0x661, 0x660, 0x2E, 0x660, 0x2E, 0x660, 0x2E, 0x669] @
        py ''           0A:0B:0C:0D:0E:0F '']"
    by code_simp
  show ?thesis
    using n w d p
      discover_devices_line_by_line
        [of lab_world "py ''Interface: 192.168.1.5 --- 0x3''"
            "[py ''? (192.168.1.1) at 0:1a:2b:3c:4d:5e on en0 ifscope [ethernet]'']"
            "[py ''  192.168.1.7           1a-2b-3c-4d-5e-6f     dynamic'',
              py ''? (192.168.1.1) at 0:1a:2b:3c:4d:5e on en0 ifscope [ethernet]'']"]
    by blast
qed

text \<open>
  Claim C10: both patterns accept a group of a single hexadecimal digit; the normalization
  maps the address character by character (hyphen to colon, letter to capital), so it keeps
  the length and pads nothing; the line with the address \<^verbatim>\<open>1-2b-3c-4d-5e-6f\<close> gives the
  record with \<^verbatim>\<open>1:2B:3C:4D:5E:6F\<close>, which is not made of two-digit pairs.
\<close>

theorem single_digit_group_not_padded:
  "windows_pattern w (py ''192.168.1.1 1-2b-3c-4d-5e-6f dynamic'') =
     Some (py ''192.168.1.1'', py ''1-2b-3c-4d-5e-6f'') \<and>
   linux_mac_pattern w (py ''? (192.168.1.1) at 1:2b:3c:4d:5e:6f on en0'') =
     Some (py ''192.168.1.1'', py ''1:2b:3c:4d:5e:6f'') \<and>
   arp_devices w (py ''192.168.1.1 1-2b-3c-4d-5e-6f dynamic'') =
     [\<lparr>ip = py ''192.168.1.1'', mac = py ''1:2B:3C:4D:5E:6F''\<rparr>] \<and>
   \<not> canonical_mac (py ''1:2B:3C:4D:5E:6F'') \<and>
   normalize_mac m = map (\<lambda>c. upper_char (if c = cp CHR ''-'' then cp CHR '':'' else c)) m \<and>
   length (normalize_mac m) = length m"
proof -
  have "windows_pattern w (py ''192.168.1.1 1-2b-3c-4d-5e-6f dynamic'') =
     Some (py ''192.168.1.1'', py ''1-2b-3c-4d-5e-6f'')"
    by code_simp
  moreover have "linux_mac_pattern w (py ''? (192.168.1.1) at 1:2b:3c:4d:5e:6f on en0'') =
     Some (py ''192.168.1.1'', py ''1:2b:3c:4d:5e:6f'')"
    by code_simp
  moreover have "arp_devices w (py ''192.168.1.1 1-2b-3c-4d-5e-6f dynamic'') =
     [\<lparr>ip = py ''192.168.1.1'', mac = py ''1:2B:3C:4D:5E:6F''\<rparr>]"
    by code_simp
  moreover have "\<not> canonical_mac (py ''1:2B:3C:4D:5E:6F'')"
    by code_simp
  moreover have "normalize_mac m = map (\<lambda>c. upper_char (if c = cp CHR ''-'' then cp CHR '':'' else c)) m"
    by (simp add: normalize_mac_def upper_def)
  moreover have "length (normalize_mac m) = length m"
    by (simp add: normalize_mac_def upper_def)
  ultimately show ?thesis by blast
qed

end
